theory Spec2Isabelle
  imports Complex_Main "HOL-Library.AList"
begin

section \<open>Python values, exceptions and strings\<close>

text \<open>
  The pipeline is Python. An exception is a value: every function of the source that can
  raise returns \<open>exn + 'a\<close>, with \<open>Inl\<close> for the exception, and a \<^verbatim>\<open>try/except\<close> is a case
  distinction on that sum. An exception carries its class and the text \<^verbatim>\<open>str(e)\<close> gives.
\<close>

datatype exn_kind =
  ImportError | ValueError | KeyError | TypeError | AttributeError | IndexError
  | ZeroDivisionError | OtherError

datatype exn = Exn (kind: exn_kind) (msg: string)

text \<open>
  A Python \<^verbatim>\<open>str\<close> is a sequence of code points. The model covers text in the Latin-1
  range (code points 0 to 255, which holds every letter of the Portuguese lexicons):
  a \<open>char\<close> is one code point and \<open>length\<close> counts code points, as \<^verbatim>\<open>len\<close> does.
\<close>

definition isspace :: "char \<Rightarrow> bool" where
  \<comment> \<open>\<^verbatim>\<open>str.isspace\<close> and the regular expression class \<^verbatim>\<open>\s\<close> on one code point\<close>
  "isspace c =
     (let n = (of_char c :: nat)
      in (9 \<le> n \<and> n \<le> 13) \<or> (28 \<le> n \<and> n \<le> 32) \<or> n = 133 \<or> n = 160)"

definition lower_char :: "char \<Rightarrow> char" where
  "lower_char c =
     (let n = (of_char c :: nat)
      in if (65 \<le> n \<and> n \<le> 90) \<or> (192 \<le> n \<and> n \<le> 222 \<and> n \<noteq> 215)
         then char_of (n + 32) else c)"

definition lower :: "string \<Rightarrow> string" where
  \<comment> \<open>\<^verbatim>\<open>str.lower\<close>\<close>
  "lower s = map lower_char s"

fun startswith :: "string \<Rightarrow> string \<Rightarrow> bool" where
  \<comment> \<open>\<^verbatim>\<open>text.startswith(w)\<close>\<close>
  "startswith t [] = True"
| "startswith [] (w # ws) = False"
| "startswith (c # cs) (w # ws) = (c = w \<and> startswith cs ws)"

fun str_contains :: "string \<Rightarrow> string \<Rightarrow> bool" where
  \<comment> \<open>\<^verbatim>\<open>w in text\<close> on strings: \<open>w\<close> occurs in \<open>text\<close> as a contiguous substring\<close>
  "str_contains w [] = (w = [])"
| "str_contains w (c # cs) = (startswith (c # cs) w \<or> str_contains w cs)"

definition isupper_char :: "char \<Rightarrow> bool" where
  \<comment> \<open>\<^verbatim>\<open>str.isupper\<close> on a string of one code point\<close>
  "isupper_char c =
     (let n = (of_char c :: nat)
      in (65 \<le> n \<and> n \<le> 90) \<or> (192 \<le> n \<and> n \<le> 222 \<and> n \<noteq> 215))"

definition is_word_char :: "char \<Rightarrow> bool" where
  \<comment> \<open>the regular expression class \<^verbatim>\<open>\w\<close> on one code point\<close>
  "is_word_char c =
     (let n = (of_char c :: nat)
      in (48 \<le> n \<and> n \<le> 57) \<or> (65 \<le> n \<and> n \<le> 90) \<or> n = 95 \<or> (97 \<le> n \<and> n \<le> 122)
         \<or> n = 170 \<or> n = 178 \<or> n = 179 \<or> n = 181 \<or> n = 185 \<or> n = 186
         \<or> (188 \<le> n \<and> n \<le> 190) \<or> (192 \<le> n \<and> n \<le> 214) \<or> (216 \<le> n \<and> n \<le> 246)
         \<or> 248 \<le> n)"

fun split_acc :: "string \<Rightarrow> string \<Rightarrow> string list" where
  \<comment> \<open>the word being read, reversed, and the text still to read\<close>
  "split_acc w [] = (if w = [] then [] else [rev w])"
| "split_acc w (c # cs) =
     (if isspace c then (if w = [] then split_acc [] cs else rev w # split_acc [] cs)
      else split_acc (c # w) cs)"

definition str_split :: "string \<Rightarrow> string list" where
  \<comment> \<open>\<^verbatim>\<open>text.split()\<close>: the maximal runs of non-whitespace\<close>
  "str_split text = split_acc [] text"

definition strip :: "string \<Rightarrow> string" where
  \<comment> \<open>\<^verbatim>\<open>text.strip()\<close>\<close>
  "strip text = rev (dropWhile isspace (rev (dropWhile isspace text)))"

fun collapse_from :: "bool \<Rightarrow> string \<Rightarrow> string" where
  \<comment> \<open>the flag says that the code point before was whitespace\<close>
  "collapse_from in_run [] = []"
| "collapse_from in_run (c # cs) =
     (if isspace c then (if in_run then collapse_from True cs else CHR '' '' # collapse_from True cs)
      else c # collapse_from False cs)"

definition collapse_ws :: "string \<Rightarrow> string" where
  \<comment> \<open>\<^verbatim>\<open>re.sub(r'\s+', ' ', text)\<close>: every maximal run of whitespace becomes one space\<close>
  "collapse_ws text = collapse_from False text"

fun find_from :: "nat \<Rightarrow> string \<Rightarrow> string \<Rightarrow> int" where
  "find_from i sub [] = (if sub = [] then int i else - 1)"
| "find_from i sub (c # cs) =
     (if startswith (c # cs) sub then int i else find_from (Suc i) sub cs)"

definition str_find :: "string \<Rightarrow> string \<Rightarrow> int" where
  \<comment> \<open>\<^verbatim>\<open>text.find(sub)\<close>: the first index where \<open>sub\<close> starts, or -1\<close>
  "str_find text sub = find_from 0 sub text"

definition py_take :: "int \<Rightarrow> 'a list \<Rightarrow> 'a list" where
  \<comment> \<open>the slice \<^verbatim>\<open>xs[:n]\<close>: a negative \<open>n\<close> counts from the end\<close>
  "py_take n xs = (if 0 \<le> n then take (nat n) xs else take (length xs - nat (- n)) xs)"

text \<open>
  The values a JSON field, a JSON response or a feed entry holds. A dictionary is an
  association list that holds each key once; \<open>map_of\<close> reads it.
\<close>

datatype pyval =
  PNone | PBool bool | PInt int | PFloat real | PStr string
  | PList "pyval list" | PDict "(string \<times> pyval) list"

fun truthy :: "pyval \<Rightarrow> bool" where
  \<comment> \<open>what \<^verbatim>\<open>if v:\<close> tests\<close>
  "truthy PNone = False"
| "truthy (PBool b) = b"
| "truthy (PInt i) = (i \<noteq> 0)"
| "truthy (PFloat r) = (r \<noteq> 0)"
| "truthy (PStr s) = (s \<noteq> [])"
| "truthy (PList xs) = (xs \<noteq> [])"
| "truthy (PDict kvs) = (kvs \<noteq> [])"

definition dict_get :: "(string \<times> pyval) list \<Rightarrow> string \<Rightarrow> pyval \<Rightarrow> pyval" where
  \<comment> \<open>\<^verbatim>\<open>d.get(key, default)\<close>\<close>
  "dict_get d key dflt = (case map_of d key of Some v \<Rightarrow> v | None \<Rightarrow> dflt)"

definition py_get :: "pyval \<Rightarrow> string \<Rightarrow> pyval \<Rightarrow> exn + pyval" where
  \<comment> \<open>\<^verbatim>\<open>v.get(key, default)\<close>: only a dictionary has the method\<close>
  "py_get v key dflt =
     (case v of PDict d \<Rightarrow> Inr (dict_get d key dflt)
      | _ \<Rightarrow> Inl (Exn AttributeError ''object has no attribute get''))"

section \<open>Sentiment analysis (data\_processor/processors.py, SentimentProcessor)\<close>

record vader_scores =
  neg :: real
  neu :: real
  pos :: real
  compound :: real

datatype details =
  LexiconCounts (positive_hits: nat) (negative_hits: nat)
  | VaderDetails vader_scores
  | TextBlobDetails real real

text \<open>
  The dictionary a sentiment analysis returns. The result for the empty text has no
  \<^verbatim>\<open>details\<close> key. The float literals of the source (0.3, 0.5, ...) are read as the reals
  they denote.
\<close>

record sentiment_result =
  score :: real
  label :: string
  confidence :: real
  details :: "details option"

record sentiment_model =
  model_type :: string
  total_processed :: int
  avg_processing_time :: "real option"

text \<open>
  What the processor finds outside the repository: importing and building the VADER
  analyzer and the TextBlob class (either may raise, \<^verbatim>\<open>ImportError\<close> when the package
  is not installed), the two analyzers themselves, saving the model row, and the time
  that passes between the two readings of the clock.
\<close>

record sentiment_env =
  vader_load :: "exn + (string \<Rightarrow> exn + vader_scores)"
  textblob_load :: "exn + (string \<Rightarrow> exn + real \<times> real)"
  model_save :: "sentiment_model \<Rightarrow> exn + unit"
  elapsed :: real

definition positive_words :: "string list" where
  "positive_words =
     [''bom'', CHR 0xF3 # ''timo'', ''excelente'', ''fant'' @ CHR 0xE1 # ''stico'',
      ''maravilhoso'', ''incr'' @ CHR 0xED # ''vel'', ''positivo'', ''sucesso'',
      ''crescimento'', ''lucro'', ''ganho'', ''vit'' @ CHR 0xF3 # ''ria'']"

definition negative_words :: "string list" where
  "negative_words =
     [''ruim'', ''terr'' @ CHR 0xED # ''vel'', ''horr'' @ CHR 0xED # ''vel'',
      ''p'' @ CHR 0xE9 # ''ssimo'', ''negativo'', ''fracasso'', ''perda'', ''queda'',
      ''crise'', ''problema'', ''erro'', ''falha'']"

definition positive_count :: "string \<Rightarrow> nat" where
  \<comment> \<open>\<^verbatim>\<open>sum(1 for word in positive_words if word in text_lower)\<close>\<close>
  "positive_count text = length (filter (\<lambda>word. str_contains word (lower text)) positive_words)"

definition negative_count :: "string \<Rightarrow> nat" where
  "negative_count text = length (filter (\<lambda>word. str_contains word (lower text)) negative_words)"

definition fallback_sentiment :: "string \<Rightarrow> sentiment_result" where
  "fallback_sentiment text =
     (let positive_count = positive_count text; negative_count = negative_count text
      in \<lparr>score = (if positive_count > negative_count then 0.3
                   else if negative_count > positive_count then - 0.3 else 0.0),
          label = (if positive_count > negative_count then ''positive''
                   else if negative_count > positive_count then ''negative'' else ''neutral''),
          confidence = 0.5,
          details = Some (LexiconCounts positive_count negative_count)\<rparr>)"

definition analyze_vader :: "sentiment_env \<Rightarrow> string \<Rightarrow> exn + sentiment_result" where
  "analyze_vader env text =
     (case vader_load env of
        Inl e \<Rightarrow> if kind e = ImportError then Inr (fallback_sentiment text) else Inl e
      | Inr polarity_scores \<Rightarrow>
          (case polarity_scores text of
             Inl e \<Rightarrow> Inl e
           | Inr scores \<Rightarrow>
               Inr \<lparr>score = compound scores,
                    label = (if compound scores \<ge> 0.05 then ''positive''
                             else if compound scores \<le> - 0.05 then ''negative''
                             else ''neutral''),
                    confidence = \<bar>compound scores\<bar>,
                    details = Some (VaderDetails scores)\<rparr>))"

definition analyze_textblob :: "sentiment_env \<Rightarrow> string \<Rightarrow> exn + sentiment_result" where
  "analyze_textblob env text =
     (case textblob_load env of
        Inl e \<Rightarrow> if kind e = ImportError then Inr (fallback_sentiment text) else Inl e
      | Inr sentiment \<Rightarrow>
          (case sentiment text of
             Inl e \<Rightarrow> Inl e
           | Inr (polarity, subjectivity) \<Rightarrow>
               Inr \<lparr>score = polarity,
                    label = (if polarity > 0 then ''positive''
                             else if polarity < 0 then ''negative'' else ''neutral''),
                    confidence = \<bar>polarity\<bar>,
                    details = Some (TextBlobDetails polarity subjectivity)\<rparr>))"

definition update_stats :: "real \<Rightarrow> sentiment_model \<Rightarrow> sentiment_model" where
  \<comment> \<open>the running mean of the source; a stored average of 0.0 is falsy and is replaced\<close>
  "update_stats processing_time m =
     m\<lparr>total_processed := total_processed m + 1,
       avg_processing_time :=
         Some (case avg_processing_time m of
                 None \<Rightarrow> processing_time
               | Some a \<Rightarrow> if a \<noteq> 0 then (a + processing_time) / 2 else processing_time)\<rparr>"

definition analyze_sentiment ::
  "sentiment_env \<Rightarrow> sentiment_model option \<Rightarrow> string \<Rightarrow> sentiment_result \<times> sentiment_model option"
where
  \<comment> \<open>the result and the model row as the call leaves it\<close>
  "analyze_sentiment env model text =
     (if text = [] then
        (\<lparr>score = 0.0, label = ''neutral'', confidence = 0.0, details = None\<rparr>, model)
      else case model of
        None \<Rightarrow> (fallback_sentiment text, None)
      | Some m \<Rightarrow>
          (case (if model_type m = ''vader'' then analyze_vader env text
                 else if model_type m = ''textblob'' then analyze_textblob env text
                 else Inr (fallback_sentiment text)) of
             Inl e \<Rightarrow> (fallback_sentiment text, Some m)
           | Inr result \<Rightarrow>
               (let m' = update_stats (elapsed env) m
                in case model_save env m' of
                     Inl e \<Rightarrow> (fallback_sentiment text, Some m')
                   | Inr u \<Rightarrow> (result, Some m'))))"

section \<open>Entity extraction (EntityProcessor)\<close>

record entity =
  ent_text :: string
  ent_type :: string
  ent_start :: int
  ent_end :: int
  ent_confidence :: real

record entity_extractor =
  extractor_type :: string
  entity_types :: "string list"
  ent_parameters :: pyval
  ent_total_processed :: int
  ent_avg_processing_time :: "real option"

text \<open>
  Outside the repository: importing spaCy, loading one of its models by name (the model
  maps a text to its entities: text, label, first and last character offset),
  \<^verbatim>\<open>re.finditer\<close> (the matches of a pattern in a text: matched text, start, end),
  saving the extractor row and the clock.
\<close>

record entity_env =
  spacy_import :: "exn + unit"
  spacy_load :: "string \<Rightarrow> exn + (string \<Rightarrow> exn + (string \<times> string \<times> int \<times> int) list)"
  re_finditer :: "string \<Rightarrow> string \<Rightarrow> exn + (string \<times> int \<times> int) list"
  extractor_save :: "entity_extractor \<Rightarrow> exn + unit"
  ent_elapsed :: real

fun fallback_entities_loop :: "string \<Rightarrow> string list \<Rightarrow> entity list" where
  \<comment> \<open>the loop over \<^verbatim>\<open>enumerate(words)\<close>, on the words from the current one on\<close>
  "fallback_entities_loop text [] = []"
| "fallback_entities_loop text [word] = []"
| "fallback_entities_loop text (word # next_word # words) =
     (if isupper_char (hd word) \<and> length word > 2 \<and> isupper_char (hd next_word) then
        (let full_name = word @ '' '' @ next_word
         in \<lparr>ent_text = full_name, ent_type = ''PERSON'',
              ent_start = str_find text full_name,
              ent_end = str_find text full_name + int (length full_name),
              ent_confidence = 0.5\<rparr> # fallback_entities_loop text (next_word # words))
      else fallback_entities_loop text (next_word # words))"

definition fallback_entities :: "string \<Rightarrow> entity list" where
  \<comment> \<open>no word that \<^verbatim>\<open>split\<close> returns is empty, so \<^verbatim>\<open>word[0]\<close> never raises\<close>
  "fallback_entities text = fallback_entities_loop text (str_split text)"

definition bs :: char where
  \<comment> \<open>the backslash\<close>
  "bs = CHR 0x5C"

definition default_patterns :: "(string \<times> pyval) list" where
  "default_patterns =
     [(''PERSON'', PStr (bs # ''b[A-Z][a-z]+ [A-Z][a-z]+'' @ bs # ''b'')),
      (''ORG'', PStr (bs # ''b[A-Z][A-Z'' @ bs # ''s&]+(?:Corp|Inc|Ltd|LLC|SA|LTDA)'' @ bs # ''b'')),
      (''LOC'', PStr (bs # ''b[A-Z][a-z]+(?: de | da | do )?[A-Z][a-z]+'' @ bs # ''b''))]"

fun regex_entities_loop :: "entity_env \<Rightarrow> string \<Rightarrow> (string \<times> pyval) list \<Rightarrow> exn + entity list" where
  "regex_entities_loop env text [] = Inr []"
| "regex_entities_loop env text ((entity_type, pattern) # patterns) =
     (case (case pattern of
              PStr p \<Rightarrow> re_finditer env p text
            | _ \<Rightarrow> Inl (Exn TypeError ''first argument must be string or compiled pattern'')) of
        Inl e \<Rightarrow> Inl e
      | Inr matches \<Rightarrow>
          (case regex_entities_loop env text patterns of
             Inl e \<Rightarrow> Inl e
           | Inr entities \<Rightarrow>
               Inr (map (\<lambda>(m, s, e). \<lparr>ent_text = m, ent_type = entity_type, ent_start = s,
                                      ent_end = e, ent_confidence = 0.6\<rparr>) matches @ entities)))"

definition extract_regex_entities :: "entity_env \<Rightarrow> entity_extractor \<Rightarrow> string \<Rightarrow> exn + entity list" where
  "extract_regex_entities env extractor text =
     (case py_get (ent_parameters extractor) ''patterns'' (PDict default_patterns) of
        Inl e \<Rightarrow> Inl e
      | Inr (PDict patterns) \<Rightarrow> regex_entities_loop env text patterns
      | Inr _ \<Rightarrow> Inl (Exn AttributeError ''object has no attribute items''))"

definition extract_spacy_entities :: "entity_env \<Rightarrow> string \<Rightarrow> exn + entity list" where
  "extract_spacy_entities env text =
     (case (case spacy_import env of
              Inl e \<Rightarrow> Inl e
            | Inr u \<Rightarrow>
                (case spacy_load env ''pt_core_news_sm'' of
                   Inl e \<Rightarrow> spacy_load env ''en_core_web_sm''
                 | Inr nlp \<Rightarrow> Inr nlp)) of
        Inl e \<Rightarrow> if kind e = ImportError then Inr (fallback_entities text) else Inl e
      | Inr nlp \<Rightarrow>
          (case nlp text of
             Inl e \<Rightarrow> Inl e
           | Inr ents \<Rightarrow>
               Inr (map (\<lambda>(t, l, s, e). \<lparr>ent_text = t, ent_type = l, ent_start = s,
                                         ent_end = e, ent_confidence = 0.8\<rparr>) ents)))"

definition running_mean :: "real option \<Rightarrow> real \<Rightarrow> real" where
  "running_mean avg processing_time =
     (case avg of None \<Rightarrow> processing_time
      | Some a \<Rightarrow> if a \<noteq> 0 then (a + processing_time) / 2 else processing_time)"

definition extract_entities ::
  "entity_env \<Rightarrow> entity_extractor option \<Rightarrow> string \<Rightarrow> entity list \<times> entity_extractor option"
where
  "extract_entities env extractor text =
     (if text = [] then ([], extractor)
      else case extractor of
        None \<Rightarrow> (fallback_entities text, None)
      | Some x \<Rightarrow>
          (case (if extractor_type x = ''spacy'' then extract_spacy_entities env text
                 else if extractor_type x = ''regex'' then extract_regex_entities env x text
                 else Inr (fallback_entities text)) of
             Inl e \<Rightarrow> (fallback_entities text, Some x)
           | Inr found \<Rightarrow>
               (let entities = (if entity_types x \<noteq> []
                                then filter (\<lambda>entity. ent_type entity \<in> set (entity_types x)) found
                                else found);
                    x' = x\<lparr>ent_total_processed := ent_total_processed x + 1,
                           ent_avg_processing_time :=
                             Some (running_mean (ent_avg_processing_time x) (ent_elapsed env))\<rparr>
                in case extractor_save env x' of
                     Inl e \<Rightarrow> (fallback_entities text, Some x')
                   | Inr u \<Rightarrow> (entities, Some x'))))"

section \<open>Keyword extraction (KeywordProcessor)\<close>

record keyword =
  kw_text :: string
  kw_score :: real
  kw_type :: string

record keyword_extractor =
  kw_extractor_type :: string
  max_keywords :: int
  min_keyword_length :: int
  stop_words :: "string list"
  kw_total_processed :: int
  kw_avg_processing_time :: "real option"

text \<open>
  Outside the repository: scikit-learn's TF-IDF vectoriser (import it, fit it on the text:
  the feature names with their scores), YAKE (import it, extract: the keywords with their
  scores), saving the extractor row and the clock.
\<close>

record keyword_env =
  tfidf :: "exn + (string \<Rightarrow> exn + (string \<times> real) list)"
  yake :: "exn + (string \<Rightarrow> exn + (string \<times> real) list)"
  kw_extractor_save :: "keyword_extractor \<Rightarrow> exn + unit"
  kw_elapsed :: real

fun bump :: "string \<Rightarrow> (string \<times> nat) list \<Rightarrow> (string \<times> nat) list" where
  \<comment> \<open>\<^verbatim>\<open>word_freq[word] = word_freq.get(word, 0) + 1\<close> on a dictionary in insertion order\<close>
  "bump word [] = [(word, 1)]"
| "bump word ((k, n) # kvs) = (if k = word then (k, n + 1) # kvs else (k, n) # bump word kvs)"

definition sort_by_score :: "keyword list \<Rightarrow> keyword list" where
  \<comment> \<open>\<^verbatim>\<open>keywords.sort(key=lambda x: x['score'], reverse=True)\<close>: stable, highest first\<close>
  "sort_by_score keywords = sort_key (\<lambda>kw. - kw_score kw) keywords"

definition fallback_keywords :: "string \<Rightarrow> keyword list" where
  \<comment> \<open>\<^verbatim>\<open>freq / len(words)\<close> is evaluated only for a word of \<open>words\<close>, so the divisor is positive\<close>
  "fallback_keywords text =
     (let text_clean = filter (\<lambda>c. is_word_char c \<or> isspace c) (lower text);
          words = str_split text_clean;
          word_freq = foldl (\<lambda>freq word. if length word \<ge> 3 then bump word freq else freq) [] words
      in sort_by_score
           (map (\<lambda>(word, freq). \<lparr>kw_text = word, kw_score = real freq / real (length words),
                                   kw_type = ''frequency''\<rparr>)
                (filter (\<lambda>(word, freq). freq > 1) word_freq)))"

definition extract_tfidf_keywords :: "keyword_env \<Rightarrow> string \<Rightarrow> exn + keyword list" where
  "extract_tfidf_keywords env text =
     (case (case tfidf env of Inl e \<Rightarrow> Inl e | Inr fit_transform \<Rightarrow> fit_transform text) of
        Inl e \<Rightarrow> if kind e = ImportError then Inr (fallback_keywords text) else Inl e
      | Inr scores \<Rightarrow>
          Inr (sort_by_score
                 (map (\<lambda>(feature, s). \<lparr>kw_text = feature, kw_score = s, kw_type = ''tfidf''\<rparr>)
                      (filter (\<lambda>(feature, s). s > 0) scores))))"

definition extract_yake_keywords :: "keyword_env \<Rightarrow> string \<Rightarrow> exn + keyword list" where
  "extract_yake_keywords env text =
     (case (case yake env of Inl e \<Rightarrow> Inl e | Inr extract \<Rightarrow> extract text) of
        Inl e \<Rightarrow> if kind e = ImportError then Inr (fallback_keywords text) else Inl e
      | Inr keywords \<Rightarrow>
          Inr (map (\<lambda>(k, s). \<lparr>kw_text = k, kw_score = 1.0 - s, kw_type = ''yake''\<rparr>) keywords))"

definition extract_keywords ::
  "keyword_env \<Rightarrow> keyword_extractor option \<Rightarrow> string \<Rightarrow> keyword list \<times> keyword_extractor option"
where
  "extract_keywords env extractor text =
     (if text = [] then ([], extractor)
      else case extractor of
        None \<Rightarrow> (fallback_keywords text, None)
      | Some x \<Rightarrow>
          (case (if kw_extractor_type x = ''tfidf'' then extract_tfidf_keywords env text
                 else if kw_extractor_type x = ''yake'' then extract_yake_keywords env text
                 else Inr (fallback_keywords text)) of
             Inl e \<Rightarrow> (fallback_keywords text, Some x)
           | Inr found \<Rightarrow>
               (let long_enough = filter (\<lambda>kw. int (length (kw_text kw)) \<ge> min_keyword_length x) found;
                    kept = (if stop_words x \<noteq> []
                            then filter (\<lambda>kw. lower (kw_text kw) \<notin> set (stop_words x)) long_enough
                            else long_enough);
                    keywords = py_take (max_keywords x) kept;
                    x' = x\<lparr>kw_total_processed := kw_total_processed x + 1,
                           kw_avg_processing_time :=
                             Some (running_mean (kw_avg_processing_time x) (kw_elapsed env))\<rparr>
                in case kw_extractor_save env x' of
                     Inl e \<Rightarrow> (fallback_keywords text, Some x')
                   | Inr u \<Rightarrow> (keywords, Some x'))))"

section \<open>Quality scoring (QualityProcessor)\<close>

type_synonym datetime = int

text \<open>
  The article fields the scorer reads. \<^verbatim>\<open>keywords\<close> and \<^verbatim>\<open>entities\<close> are JSON fields whose
  default is the empty list and which the pipeline fills with lists.
\<close>

record article =
  title :: string
  content :: string
  author :: string
  published_date :: "datetime option"
  url :: string
  article_keywords :: "string list"
  article_entities :: "entity list"

definition truediv :: "real \<Rightarrow> real \<Rightarrow> exn + real" where
  \<comment> \<open>Python's \<^verbatim>\<open>a / b\<close>\<close>
  "truediv a b = (if b = 0 then Inl (Exn ZeroDivisionError ''division by zero'') else Inr (a / b))"

definition is_terminator :: "char \<Rightarrow> bool" where
  "is_terminator c = (c = CHR ''.'' \<or> c = CHR ''!'' \<or> c = CHR ''?'')"

fun split_sentences_acc :: "string \<Rightarrow> bool \<Rightarrow> string \<Rightarrow> string list" where
  \<comment> \<open>the piece being read, reversed; whether the code point before was a terminator; the rest\<close>
  "split_sentences_acc piece in_run [] = [rev piece]"
| "split_sentences_acc piece in_run (c # cs) =
     (if is_terminator c then
        (if in_run then split_sentences_acc [] True cs
         else rev piece # split_sentences_acc [] True cs)
      else split_sentences_acc (c # piece) False cs)"

definition split_sentences :: "string \<Rightarrow> string list" where
  \<comment> \<open>\<^verbatim>\<open>re.split(r'[.!?]+', text)\<close>\<close>
  "split_sentences text = split_sentences_acc [] False text"

definition vowels :: string where
  "vowels = ''aeiou'' @ [CHR 0xE1, CHR 0xE9, CHR 0xED, CHR 0xF3, CHR 0xFA, CHR 0xE2, CHR 0xEA,
                          CHR 0xEE, CHR 0xF4, CHR 0xFB, CHR 0xE3, CHR 0xF5]"

definition count_syllables :: "string \<Rightarrow> nat" where
  "count_syllables text = length (filter (\<lambda>char. char \<in> set vowels) (lower text))"

definition calculate_readability :: "string \<Rightarrow> exn + real" where
  "calculate_readability text =
     (if text = [] then Inr 0.0
      else
        (let sentences = length (split_sentences text);
             words = length (str_split text);
             syllables = count_syllables text
         in if sentences = 0 \<or> words = 0 then Inr 0.0
            else
              (case truediv (real words) (real sentences) of
                 Inl e \<Rightarrow> Inl e
               | Inr words_per_sentence \<Rightarrow>
                   (case truediv (real syllables) (real words) of
                      Inl e \<Rightarrow> Inl e
                    | Inr syllables_per_word \<Rightarrow>
                        (let readability =
                               206.835 - 1.015 * words_per_sentence - 84.6 * syllables_per_word
                         in Inr (max 0.0 (min 1.0 (readability / 100.0))))))))"

definition calculate_completeness :: "article \<Rightarrow> real" where
  "calculate_completeness a =
     (let factors =
            [if title a \<noteq> [] \<and> length (title a) > 10 then 1.0 else 0.0,
             if content a \<noteq> [] \<and> length (content a) > 100 then 1.0 else 0.0,
             if author a \<noteq> [] then 1.0 else 0.0,
             if published_date a \<noteq> None then 1.0 else 0.0,
             if url a \<noteq> [] then 1.0 else 0.0]
      in sum_list factors / real (length factors))"

text \<open>
  \<^verbatim>\<open>re.search\<close> with the three fixed patterns of the source is the regular expression
  engine's: whether the content holds a date (\<^verbatim>\<open>\d{1,2}[/-]\d{1,2}[/-]\d{2,4}\<close>), a number
  (\<^verbatim>\<open>\d+\<close>), a name of two capitalised words (\<^verbatim>\<open>\b[A-Z][a-z]+ [A-Z][a-z]+\b\<close>).
\<close>

record quality_env =
  search_date :: "string \<Rightarrow> bool"
  search_number :: "string \<Rightarrow> bool"
  search_name :: "string \<Rightarrow> bool"

definition calculate_accuracy :: "quality_env \<Rightarrow> article \<Rightarrow> real" where
  "calculate_accuracy env a =
     (let factors =
            [if search_date env (content a) then 1.0 else 0.0,
             if search_number env (content a) then 1.0 else 0.0,
             if search_name env (content a) then 1.0 else 0.0,
             if CHR 0x22 \<in> set (content a) \<or> CHR 0x22 \<in> set (content a) then 1.0 else 0.0]
      in if factors \<noteq> [] then sum_list factors / real (length factors) else 0.0)"

definition calculate_relevance :: "article \<Rightarrow> real" where
  "calculate_relevance a =
     (let relevance_factors =
            [if article_keywords a \<noteq> [] then min 1.0 (real (length (article_keywords a)) / 10.0) else 0.0,
             if article_entities a \<noteq> [] then min 1.0 (real (length (article_entities a)) / 5.0) else 0.0]
      in if relevance_factors \<noteq> []
         then sum_list relevance_factors / real (length relevance_factors) else 0.0)"

record quality_factors =
  has_title :: bool
  has_content :: bool
  has_author :: bool
  has_date :: bool
  content_length :: nat
  title_length :: nat
  has_keywords :: bool
  has_entities :: bool
  keyword_count :: nat
  entity_count :: nat

definition get_quality_factors :: "article \<Rightarrow> quality_factors" where
  "get_quality_factors a =
     \<lparr>has_title = (title a \<noteq> []), has_content = (content a \<noteq> []),
      has_author = (author a \<noteq> []), has_date = (published_date a \<noteq> None),
      content_length = (if content a \<noteq> [] then length (content a) else 0),
      title_length = (if title a \<noteq> [] then length (title a) else 0),
      has_keywords = (article_keywords a \<noteq> []), has_entities = (article_entities a \<noteq> []),
      keyword_count = (if article_keywords a \<noteq> [] then length (article_keywords a) else 0),
      entity_count = (if article_entities a \<noteq> [] then length (article_entities a) else 0)\<rparr>"

definition weights :: "(string \<times> real) list" where
  "weights =
     [(''readability'', 0.2), (''completeness'', 0.3), (''accuracy'', 0.25), (''relevance'', 0.25)]"

fun weighted_sum :: "real \<Rightarrow> (string \<times> real) list \<Rightarrow> string list \<Rightarrow> exn + real" where
  \<comment> \<open>\<^verbatim>\<open>sum(scores[key] * weights[key] for key in ...)\<close>; a missing key raises\<close>
  "weighted_sum acc scores [] = Inr acc"
| "weighted_sum acc scores (key # keys) =
     (case (map_of scores key, map_of weights key) of
        (Some s, Some w) \<Rightarrow> weighted_sum (acc + s * w) scores keys
      | _ \<Rightarrow> Inl (Exn KeyError key))"

record quality_result =
  overall_score :: real
  scores :: "(string \<times> real) list"
  factors :: quality_factors

definition calculate_quality_score :: "quality_env \<Rightarrow> article \<Rightarrow> exn + quality_result" where
  "calculate_quality_score env a =
     (case calculate_readability (content a) of
        Inl e \<Rightarrow> Inl e
      | Inr readability \<Rightarrow>
          (let scores = [(''readability'', readability),
                         (''completeness'', calculate_completeness a),
                         (''accuracy'', calculate_accuracy env a),
                         (''relevance'', calculate_relevance a)]
           in case weighted_sum 0 scores (map fst scores) of
                Inl e \<Rightarrow> Inl e
              | Inr overall \<Rightarrow>
                  Inr \<lparr>overall_score = overall, scores = scores,
                       factors = get_quality_factors a\<rparr>))"

section \<open>The rule engine (BaseProcessor)\<close>

definition py_in :: "string \<Rightarrow> pyval \<Rightarrow> exn + bool" where
  \<comment> \<open>\<^verbatim>\<open>key in v\<close>: a key of a dictionary, an element of a list, a substring of a string\<close>
  "py_in key v =
     (case v of
        PDict d \<Rightarrow> Inr (map_of d key \<noteq> None)
      | PList xs \<Rightarrow> Inr (PStr key \<in> set xs)
      | PStr s \<Rightarrow> Inr (str_contains key s)
      | _ \<Rightarrow> Inl (Exn TypeError ''argument is not iterable''))"

definition py_getitem :: "pyval \<Rightarrow> string \<Rightarrow> exn + pyval" where
  \<comment> \<open>\<^verbatim>\<open>v[key]\<close> with a string key\<close>
  "py_getitem v key =
     (case v of
        PDict d \<Rightarrow> (case map_of d key of Some x \<Rightarrow> Inr x | None \<Rightarrow> Inl (Exn KeyError key))
      | _ \<Rightarrow> Inl (Exn TypeError ''indices must be integers''))"

definition py_iter :: "pyval \<Rightarrow> exn + pyval list" where
  \<comment> \<open>what \<^verbatim>\<open>for x in v\<close> visits: the elements of a list, the code points of a string,
      the keys of a dictionary\<close>
  "py_iter v =
     (case v of
        PList xs \<Rightarrow> Inr xs
      | PStr s \<Rightarrow> Inr (map (\<lambda>c. PStr [c]) s)
      | PDict d \<Rightarrow> Inr (map (\<lambda>(k, x). PStr k) d)
      | _ \<Rightarrow> Inl (Exn TypeError ''object is not iterable''))"

definition try_bind :: "exn + 'a \<Rightarrow> ('a \<Rightarrow> exn + 'b) \<Rightarrow> exn + 'b" where
  \<comment> \<open>one statement after another: an exception of the first skips the second\<close>
  "try_bind x f = (case x of Inl e \<Rightarrow> Inl e | Inr v \<Rightarrow> f v)"

record processing_rule =
  rule_name :: string
  rule_type :: string
  parameters :: pyval

text \<open>
  Outside the repository: \<^verbatim>\<open>re.sub(pattern, repl, text)\<close> with or without
  \<^verbatim>\<open>re.IGNORECASE\<close> (it raises on an invalid pattern and on a pattern or a replacement
  that is no string), \<^verbatim>\<open>re.escape\<close>, and the text BeautifulSoup extracts from markup.
\<close>

record rule_env =
  re_sub :: "pyval \<Rightarrow> pyval \<Rightarrow> string \<Rightarrow> bool \<Rightarrow> exn + string"
  re_escape :: "string \<Rightarrow> string"
  html_get_text :: "string \<Rightarrow> exn + string"

fun remove_words_loop :: "rule_env \<Rightarrow> pyval list \<Rightarrow> string \<Rightarrow> exn + string" where
  "remove_words_loop env [] t = Inr t"
| "remove_words_loop env (word # words) t =
     (case word of
        PStr w \<Rightarrow>
          try_bind (re_sub env (PStr (bs # ''b'' @ re_escape env w @ bs # ''b'')) (PStr []) t True)
            (remove_words_loop env words)
      | _ \<Rightarrow> Inl (Exn TypeError ''expected a string''))"

fun remove_patterns_loop :: "rule_env \<Rightarrow> pyval list \<Rightarrow> string \<Rightarrow> exn + string" where
  "remove_patterns_loop env [] t = Inr t"
| "remove_patterns_loop env (pattern # patterns) t =
     try_bind (re_sub env pattern (PStr []) t False) (remove_patterns_loop env patterns)"

definition apply_text_filter :: "rule_env \<Rightarrow> string \<Rightarrow> pyval \<Rightarrow> exn + string" where
  "apply_text_filter env t params =
     try_bind (try_bind (py_in ''remove_words'' params)
                 (\<lambda>present. if present
                    then try_bind (try_bind (py_getitem params ''remove_words'') py_iter)
                           (\<lambda>words. remove_words_loop env words t)
                    else Inr t))
       (\<lambda>t. try_bind (py_in ''remove_patterns'' params)
               (\<lambda>present. if present
                  then try_bind (try_bind (py_getitem params ''remove_patterns'') py_iter)
                         (\<lambda>patterns. remove_patterns_loop env patterns t)
                  else Inr t))"

definition apply_regex_replace :: "rule_env \<Rightarrow> string \<Rightarrow> pyval \<Rightarrow> exn + string" where
  "apply_regex_replace env t params =
     try_bind (try_bind (py_in ''pattern'' params)
                 (\<lambda>has_pattern. if has_pattern then py_in ''replacement'' params else Inr False))
       (\<lambda>both. if both
          then try_bind (py_getitem params ''pattern'')
                 (\<lambda>pattern. try_bind (py_getitem params ''replacement'')
                    (\<lambda>replacement. re_sub env pattern replacement t False))
          else Inr t)"

definition clean_html :: "rule_env \<Rightarrow> string \<Rightarrow> exn + string" where
  "clean_html env t = html_get_text env t"

definition apply_rule :: "rule_env \<Rightarrow> processing_rule \<Rightarrow> string \<Rightarrow> exn + string" where
  "apply_rule env rule t =
     (if rule_type rule = ''text_filter'' then apply_text_filter env t (parameters rule)
      else if rule_type rule = ''regex_replace'' then apply_regex_replace env t (parameters rule)
      else if rule_type rule = ''html_clean'' then clean_html env t
      else Inr t)"

fun apply_rules :: "rule_env \<Rightarrow> processing_rule list \<Rightarrow> string \<Rightarrow> exn + string" where
  \<comment> \<open>the loop over the rules: the \<^verbatim>\<open>except\<close> branch logs and keeps the text as it was\<close>
  "apply_rules env [] processed_text = Inr processed_text"
| "apply_rules env (rule # rules) processed_text =
     (case apply_rule env rule processed_text of
        Inl e \<Rightarrow> apply_rules env rules processed_text
      | Inr t \<Rightarrow> apply_rules env rules t)"

section \<open>Collectors (news\_collector/collectors.py)\<close>

record news_source =
  src_name :: string
  src_url :: string
  source_type :: string
  max_articles :: int

record scraping_config =
  title_selector :: string
  content_selector :: string
  author_selector :: string
  date_selector :: string
  api_endpoint :: string
  api_key :: string
  api_headers :: pyval
  date_format :: string

text \<open>
  The dictionary a collector builds for one article. The URL of an API item or a feed
  entry is whatever value the item holds under its key, so it is a \<open>pyval\<close>.
\<close>

record candidate =
  cand_title :: string
  cand_url :: pyval
  cand_content :: string
  cand_author :: string
  cand_published_date :: "datetime option"

text \<open>
  A \<^verbatim>\<open>CollectionLog\<close> row (the run record), without its timestamps, and the storage a run
  writes to: the rows logged so far and the URLs of the stored articles.
\<close>

record collection_log =
  log_status :: string
  articles_collected :: int
  log_errors :: "string list"

record store =
  logs :: "collection_log list"
  stored_urls :: "pyval list"

record http_response =
  status :: int
  resp_text :: "exn + string"
  resp_json :: "exn + pyval"

text \<open>
  Outside the repository, over a type \<open>'el\<close> of parsed HTML elements: the HTTP session,
  BeautifulSoup (parsing, \<^verbatim>\<open>find_all('a', href=True)\<close>, an attribute and the text of an
  element, \<^verbatim>\<open>select\<close> and \<^verbatim>\<open>select_one\<close> with a CSS selector, which raise on an invalid
  one, the search for article containers, for a heading and for a link),
  \<^verbatim>\<open>urljoin\<close>, the text BeautifulSoup extracts
  from a value handed to \<^verbatim>\<open>clean_text\<close>, \<^verbatim>\<open>datetime.strptime\<close>, \<^verbatim>\<open>str\<close>, feedparser (the
  entries of the feed at a URL), the conversion of an entry's parsed time, and saving a
  feed row.

  The collectors call \<^verbatim>\<open>self.save_articles(articles)\<close>. The call is a field of the
  environment as well: a method returns the number of saved articles or raises, and leaves
  a storage. No class of the repository defines the method (the module only has a function
  \<^verbatim>\<open>save_articles(articles, source)\<close>, which no collector calls), so with the classes as
  they stand the field is \<open>missing_method\<close> below: the attribute lookup raises.
\<close>

record 'el collector_env =
  session_get :: "string \<Rightarrow> pyval \<Rightarrow> exn + http_response"
  soup_parse :: "string \<Rightarrow> exn + 'el"
  find_all_links :: "'el \<Rightarrow> 'el list"
  get_href :: "'el \<Rightarrow> string"
  get_text :: "'el \<Rightarrow> string"
  select :: "'el \<Rightarrow> string \<Rightarrow> exn + 'el list"
  select_one :: "'el \<Rightarrow> string \<Rightarrow> exn + 'el option"
  find_all_articles :: "'el \<Rightarrow> 'el list"
  find_heading :: "'el \<Rightarrow> 'el option"
  find_link :: "'el \<Rightarrow> 'el option"
  urljoin :: "string \<Rightarrow> string \<Rightarrow> string"
  soup_text :: "pyval \<Rightarrow> exn + string"
  strptime :: "string \<Rightarrow> string \<Rightarrow> exn + datetime"
  py_str :: "pyval \<Rightarrow> string"
  feedparser_parse :: "string \<Rightarrow> exn + pyval list"
  struct_time_to_datetime :: "pyval \<Rightarrow> exn + datetime"
  feed_save :: "string \<Rightarrow> exn + unit"
  article_create :: "candidate \<Rightarrow> exn + unit"
  self_save_articles :: "candidate list \<Rightarrow> store \<Rightarrow> (exn + int) \<times> store"

definition missing_method :: "candidate list \<Rightarrow> store \<Rightarrow> (exn + int) \<times> store" where
  \<comment> \<open>\<^verbatim>\<open>self.save_articles\<close> on the collector classes as they stand: the attribute does not
      exist\<close>
  "missing_method articles db =
     (Inl (Exn AttributeError ''object has no attribute save_articles''), db)"

definition log_collection :: "string \<Rightarrow> int \<Rightarrow> string list \<Rightarrow> store \<Rightarrow> store" where
  \<comment> \<open>\<^verbatim>\<open>CollectionLog.objects.create(...)\<close>: one more row\<close>
  "log_collection st n errors db =
     db\<lparr>logs := logs db @ [\<lparr>log_status = st, articles_collected = n, log_errors = errors\<rparr>]\<rparr>"

definition clean_text :: "'el collector_env \<Rightarrow> pyval \<Rightarrow> exn + string" where
  "clean_text env v =
     (if \<not> truthy v then Inr []
      else try_bind (soup_text env v) (\<lambda>t. Inr (strip (collapse_ws t))))"

definition date_formats :: "string list" where
  "date_formats =
     [''%Y-%m-%d %H:%M:%S'', ''%Y-%m-%dT%H:%M:%S'', ''%Y-%m-%dT%H:%M:%SZ'',
      ''%d/%m/%Y %H:%M'', ''%d/%m/%Y'', ''%Y-%m-%d'']"

fun try_formats :: "'el collector_env \<Rightarrow> string \<Rightarrow> string list \<Rightarrow> datetime option" where
  \<comment> \<open>a \<^verbatim>\<open>ValueError\<close> moves on to the next format; any other exception reaches the outer
      handler of \<^verbatim>\<open>extract_date\<close>, which returns \<^verbatim>\<open>None\<close>\<close>
  "try_formats env date_str [] = None"
| "try_formats env date_str (fmt # fmts) =
     (case strptime env date_str fmt of
        Inr d \<Rightarrow> Some d
      | Inl e \<Rightarrow> if kind e = ValueError then try_formats env date_str fmts else None)"

definition extract_date :: "'el collector_env \<Rightarrow> string \<Rightarrow> string \<Rightarrow> datetime option" where
  \<comment> \<open>the date format is the empty string where the source passes \<^verbatim>\<open>None\<close>\<close>
  "extract_date env date_str fmt =
     (if date_str = [] then None
      else if fmt \<noteq> [] then
        (case strptime env date_str fmt of Inr d \<Rightarrow> Some d | Inl e \<Rightarrow> None)
      else try_formats env date_str date_formats)"

definition article_keywords_in_url :: "string list" where
  "article_keywords_in_url = [''/noticia/'', ''/news/'', ''/artigo/'', ''/post/'', ''/article/'']"

definition nav_keywords :: "string list" where
  "nav_keywords = [''home'', ''sobre'', ''contato'', ''login'', ''cadastro'']"

definition is_article_link :: "string \<Rightarrow> string \<Rightarrow> bool" where
  "is_article_link href t =
     (if href = [] \<or> t = [] then False
      else if list_ex (\<lambda>keyword. str_contains keyword (lower href)) article_keywords_in_url then True
      else if length t < 10 \<or> length t > 200 then False
      else if list_ex (\<lambda>keyword. str_contains keyword (lower t)) nav_keywords then False
      else True)"

fun auto_extract_loop :: "'el collector_env \<Rightarrow> news_source \<Rightarrow> 'el list \<Rightarrow> candidate list" where
  "auto_extract_loop env source [] = []"
| "auto_extract_loop env source (link # links) =
     (let href = get_href env link; t = strip (get_text env link)
      in if is_article_link href t
         then \<lparr>cand_title = t, cand_url = PStr (urljoin env (src_url source) href),
               cand_content = [], cand_author = [], cand_published_date = None\<rparr>
              # auto_extract_loop env source links
         else auto_extract_loop env source links)"

definition auto_extract_articles :: "'el collector_env \<Rightarrow> news_source \<Rightarrow> 'el \<Rightarrow> candidate list" where
  \<comment> \<open>\<^verbatim>\<open>for link in article_links[:20]\<close>\<close>
  "auto_extract_articles env source soup =
     auto_extract_loop env source (py_take 20 (find_all_links env soup))"

definition selected_text :: "'el collector_env \<Rightarrow> 'el \<Rightarrow> string \<Rightarrow> exn + string" where
  \<comment> \<open>the cleaned text of the element a configured selector finds; empty when no selector is
      configured or nothing is found\<close>
  "selected_text env element selector =
     (if selector = [] then Inr []
      else try_bind (select_one env element selector)
             (\<lambda>found. case found of
                 None \<Rightarrow> Inr []
               | Some elem \<Rightarrow> clean_text env (PStr (get_text env elem))))"

definition extract_article_body ::
  "'el collector_env \<Rightarrow> news_source \<Rightarrow> scraping_config option \<Rightarrow> 'el \<Rightarrow> exn + candidate option"
where
  \<comment> \<open>the body of the \<^verbatim>\<open>try\<close> block of \<^verbatim>\<open>extract_article_data\<close>\<close>
  "extract_article_body env source config element =
     try_bind
       (case config of
          Some c \<Rightarrow>
            (if title_selector c \<noteq> [] then selected_text env element (title_selector c)
             else (case find_heading env element of
                     None \<Rightarrow> Inr []
                   | Some elem \<Rightarrow> clean_text env (PStr (get_text env elem))))
        | None \<Rightarrow>
            (case find_heading env element of
               None \<Rightarrow> Inr []
             | Some elem \<Rightarrow> clean_text env (PStr (get_text env elem))))
       (\<lambda>t. if t = [] then Inr None
          else
            (let u = (case find_link env element of
                        None \<Rightarrow> []
                      | Some link_elem \<Rightarrow> urljoin env (src_url source) (get_href env link_elem))
             in if u = [] then Inr None
                else
                  try_bind (case config of Some c \<Rightarrow> selected_text env element (content_selector c)
                            | None \<Rightarrow> Inr [])
                    (\<lambda>body. try_bind (case config of
                                         Some c \<Rightarrow> selected_text env element (author_selector c)
                                       | None \<Rightarrow> Inr [])
                       (\<lambda>who. try_bind (case config of
                                         Some c \<Rightarrow> selected_text env element (date_selector c)
                                       | None \<Rightarrow> Inr [])
                          (\<lambda>date_str.
                             Inr (Some \<lparr>cand_title = t, cand_url = PStr u, cand_content = body,
                                        cand_author = who,
                                        cand_published_date =
                                          (case config of
                                             Some c \<Rightarrow>
                                               if date_selector c \<noteq> []
                                               then extract_date env date_str (date_format c)
                                               else None
                                           | None \<Rightarrow> None)\<rparr>))))))"

definition extract_article_data ::
  "'el collector_env \<Rightarrow> news_source \<Rightarrow> scraping_config option \<Rightarrow> 'el \<Rightarrow> candidate option"
where
  \<comment> \<open>\<^verbatim>\<open>except Exception\<close>: log and return \<^verbatim>\<open>None\<close>\<close>
  "extract_article_data env source config element =
     (case extract_article_body env source config element of Inl e \<Rightarrow> None | Inr r \<Rightarrow> r)"

definition config_extract_articles ::
  "'el collector_env \<Rightarrow> news_source \<Rightarrow> scraping_config \<Rightarrow> 'el \<Rightarrow> exn + candidate list"
where
  \<comment> \<open>\<^verbatim>\<open>for element in article_elements[:self.source.max_articles]\<close>\<close>
  "config_extract_articles env source c soup =
     try_bind (if title_selector c \<noteq> [] then select env soup (title_selector c)
               else Inr (find_all_articles env soup))
       (\<lambda>article_elements.
          Inr (List.map_filter (extract_article_data env source (Some c))
                 (py_take (max_articles source) article_elements)))"

definition parse_html ::
  "'el collector_env \<Rightarrow> news_source \<Rightarrow> scraping_config option \<Rightarrow> string \<Rightarrow> exn + candidate list"
where
  "parse_html env source config html =
     try_bind (soup_parse env html)
       (\<lambda>soup. case config of
           None \<Rightarrow> Inr (auto_extract_articles env source soup)
         | Some c \<Rightarrow> config_extract_articles env source c soup)"

definition finish_run ::
  "'el collector_env \<Rightarrow> candidate list \<Rightarrow> store \<Rightarrow> (exn + candidate list) \<times> store"
where
  \<comment> \<open>the tail of every \<^verbatim>\<open>collect\<close>: save the articles, log the run as a success, return the
      articles; an exception of the save leaves the method before anything is logged\<close>
  "finish_run env articles db =
     (case self_save_articles env articles db of
        (Inl e, db') \<Rightarrow> (Inl e, db')
      | (Inr saved_count, db') \<Rightarrow> (Inr articles, log_collection ''success'' saved_count [] db'))"

definition website_collect ::
  "'el collector_env \<Rightarrow> news_source \<Rightarrow> scraping_config option \<Rightarrow> store
     \<Rightarrow> (exn + candidate list) \<times> store"
where
  \<comment> \<open>\<^verbatim>\<open>WebsiteCollector.collect\<close>: what it returns or raises, and the storage it leaves\<close>
  "website_collect env source config db =
     (case try_bind (session_get env (src_url source) PNone)
             (\<lambda>response. if status response = 200
                then try_bind (resp_text response) (parse_html env source config)
                else Inr []) of
        Inl e \<Rightarrow> (Inr [], log_collection ''error'' 0 [msg e] db)
      | Inr articles \<Rightarrow> finish_run env articles db)"

subsection \<open>The API collector\<close>

definition item_get :: "pyval \<Rightarrow> string list \<Rightarrow> pyval \<Rightarrow> exn + pyval" where
  \<comment> \<open>\<^verbatim>\<open>item.get(k1, item.get(k2, ... dflt))\<close>: the value of the first key present\<close>
  "item_get item keys dflt =
     (case item of
        PDict d \<Rightarrow> Inr (foldr (\<lambda>key rest. dict_get d key rest) keys dflt)
      | _ \<Rightarrow> Inl (Exn AttributeError ''object has no attribute get''))"

definition parse_api_item_body :: "'el collector_env \<Rightarrow> pyval \<Rightarrow> exn + candidate option" where
  \<comment> \<open>the body of the \<^verbatim>\<open>try\<close> block of \<^verbatim>\<open>parse_api_item\<close>\<close>
  "parse_api_item_body env item =
     try_bind (try_bind (item_get item [''title'', ''headline''] (PStr [])) (clean_text env))
       (\<lambda>t. if t = [] then Inr None
          else try_bind (item_get item [''url'', ''link''] (PStr []))
            (\<lambda>u. if \<not> truthy u then Inr None
               else
                 try_bind (try_bind (item_get item [''content'', ''body'', ''summary''] (PStr []))
                             (clean_text env))
                   (\<lambda>body. try_bind (try_bind (item_get item [''author'', ''byline''] (PStr []))
                                        (clean_text env))
                      (\<lambda>who. try_bind (item_get item [''published_date'', ''date'', ''timestamp''] PNone)
                         (\<lambda>date_str.
                            Inr (Some \<lparr>cand_title = t, cand_url = u, cand_content = body,
                                       cand_author = who,
                                       cand_published_date =
                                         (if truthy date_str
                                          then extract_date env (py_str env date_str) []
                                          else None)\<rparr>))))))"

definition parse_api_item :: "'el collector_env \<Rightarrow> pyval \<Rightarrow> candidate option" where
  "parse_api_item env item =
     (case parse_api_item_body env item of Inl e \<Rightarrow> None | Inr r \<Rightarrow> r)"

definition parse_api_response :: "'el collector_env \<Rightarrow> news_source \<Rightarrow> pyval \<Rightarrow> exn + candidate list" where
  \<comment> \<open>a value without \<^verbatim>\<open>get\<close> raises; a value under the first present key that is no list
      is logged and gives no article\<close>
  "parse_api_response env source data =
     try_bind (item_get data [''articles'', ''items'', ''results'', ''data''] (PList []))
       (\<lambda>items. case items of
           PList xs \<Rightarrow> Inr (List.map_filter (parse_api_item env) (py_take (max_articles source) xs))
         | _ \<Rightarrow> Inr [])"

definition py_setitem :: "pyval \<Rightarrow> string \<Rightarrow> pyval \<Rightarrow> exn + pyval" where
  \<comment> \<open>\<^verbatim>\<open>v[key] = x\<close> with a string key\<close>
  "py_setitem v key x =
     (case v of
        PDict d \<Rightarrow> Inr (PDict (AList.update key x d))
      | _ \<Rightarrow> Inl (Exn TypeError ''object does not support item assignment''))"

definition request_headers :: "scraping_config \<Rightarrow> exn + pyval" where
  \<comment> \<open>\<^verbatim>\<open>headers = self.config.api_headers or {}\<close>, with the bearer token when a key is set\<close>
  "request_headers c =
     (let headers = (if truthy (api_headers c) then api_headers c else PDict [])
      in if api_key c \<noteq> []
         then py_setitem headers ''Authorization'' (PStr (''Bearer '' @ api_key c))
         else Inr headers)"

definition api_collect ::
  "'el collector_env \<Rightarrow> news_source \<Rightarrow> scraping_config option \<Rightarrow> store
     \<Rightarrow> (exn + candidate list) \<times> store"
where
  \<comment> \<open>\<^verbatim>\<open>APICollector.collect\<close>\<close>
  "api_collect env source config db =
     (case config of
        None \<Rightarrow> (Inr [], db)
      | Some c \<Rightarrow>
          if api_endpoint c = [] then (Inr [], db)
          else
            (case try_bind (request_headers c)
                    (\<lambda>headers. try_bind (session_get env (api_endpoint c) headers)
                       (\<lambda>response. if status response = 200
                          then try_bind (resp_json response) (parse_api_response env source)
                          else Inr [])) of
               Inl e \<Rightarrow> (Inr [], log_collection ''error'' 0 [msg e] db)
             | Inr articles \<Rightarrow> finish_run env articles db))"

subsection \<open>The RSS collector\<close>

definition entry_attr :: "pyval \<Rightarrow> string \<Rightarrow> exn + pyval" where
  \<comment> \<open>\<^verbatim>\<open>entry.name\<close> on a feed entry: the value under the key, or an \<^verbatim>\<open>AttributeError\<close>\<close>
  "entry_attr entry name =
     (case entry of
        PDict d \<Rightarrow> (case map_of d name of Some v \<Rightarrow> Inr v
                    | None \<Rightarrow> Inl (Exn AttributeError name))
      | _ \<Rightarrow> Inl (Exn AttributeError name))"

definition first_item :: "pyval \<Rightarrow> exn + pyval" where
  \<comment> \<open>\<^verbatim>\<open>v[0]\<close>\<close>
  "first_item v =
     (case v of
        PList (x # xs) \<Rightarrow> Inr x
      | PList [] \<Rightarrow> Inl (Exn IndexError ''list index out of range'')
      | PStr (c # cs) \<Rightarrow> Inr (PStr [c])
      | PStr [] \<Rightarrow> Inl (Exn IndexError ''string index out of range'')
      | PDict d \<Rightarrow> Inl (Exn KeyError ''0'')
      | _ \<Rightarrow> Inl (Exn TypeError ''object is not subscriptable''))"

definition entry_text :: "'el collector_env \<Rightarrow> pyval \<Rightarrow> string \<Rightarrow> exn + string" where
  \<comment> \<open>\<^verbatim>\<open>clean_text(entry.name)\<close> when the entry has the key, else the empty string\<close>
  "entry_text env entry name =
     try_bind (py_in name entry)
       (\<lambda>present. if present then try_bind (entry_attr entry name) (clean_text env) else Inr [])"

definition parse_rss_entry_body :: "'el collector_env \<Rightarrow> pyval \<Rightarrow> exn + candidate option" where
  \<comment> \<open>the body of the \<^verbatim>\<open>try\<close> block of \<^verbatim>\<open>parse_rss_entry\<close>\<close>
  "parse_rss_entry_body env entry =
     try_bind (try_bind (item_get entry [''title''] (PStr [])) (clean_text env))
       (\<lambda>t. if t = [] then Inr None
          else try_bind (item_get entry [''link''] (PStr []))
            (\<lambda>u. if \<not> truthy u then Inr None
               else
                 try_bind
                   (try_bind (py_in ''summary'' entry)
                      (\<lambda>has_summary. if has_summary
                         then try_bind (entry_attr entry ''summary'') (clean_text env)
                         else try_bind (py_in ''content'' entry)
                                (\<lambda>has_content. if has_content
                                   then try_bind (entry_attr entry ''content'')
                                          (\<lambda>c. try_bind (first_item c)
                                             (\<lambda>c0. try_bind (entry_attr c0 ''value'') (clean_text env)))
                                   else Inr [])))
                   (\<lambda>body. try_bind (entry_text env entry ''author'')
                      (\<lambda>who. try_bind
                         (try_bind (py_in ''published_parsed'' entry)
                            (\<lambda>has_published. if has_published
                               then try_bind (entry_attr entry ''published_parsed'')
                                      (\<lambda>p. try_bind (struct_time_to_datetime env p) (\<lambda>d. Inr (Some d)))
                               else try_bind (py_in ''updated_parsed'' entry)
                                      (\<lambda>has_updated. if has_updated
                                         then try_bind (entry_attr entry ''updated_parsed'')
                                                (\<lambda>p. try_bind (struct_time_to_datetime env p)
                                                   (\<lambda>d. Inr (Some d)))
                                         else Inr None)))
                         (\<lambda>published.
                            Inr (Some \<lparr>cand_title = t, cand_url = u, cand_content = body,
                                       cand_author = who, cand_published_date = published\<rparr>))))))"

definition parse_rss_entry :: "'el collector_env \<Rightarrow> pyval \<Rightarrow> candidate option" where
  "parse_rss_entry env entry =
     (case parse_rss_entry_body env entry of Inl e \<Rightarrow> None | Inr r \<Rightarrow> r)"

definition collect_from_feed :: "'el collector_env \<Rightarrow> news_source \<Rightarrow> string \<Rightarrow> candidate list" where
  \<comment> \<open>an exception of the parser is logged and the feed gives no article; an entry never
      raises, since \<^verbatim>\<open>parse_rss_entry\<close> catches every exception\<close>
  "collect_from_feed env source feed_url =
     (case feedparser_parse env feed_url of
        Inl e \<Rightarrow> []
      | Inr entries \<Rightarrow>
          List.map_filter (parse_rss_entry env) (py_take (max_articles source) entries))"

fun rss_loop :: "'el collector_env \<Rightarrow> news_source \<Rightarrow> string list \<Rightarrow> candidate list" where
  \<comment> \<open>the loop over the feeds; an exception of saving the feed row is logged and changes
      nothing\<close>
  "rss_loop env source [] = []"
| "rss_loop env source (rss_feed # rss_feeds) =
     (let articles = collect_from_feed env source rss_feed
      in (case feed_save env rss_feed of
            Inl e \<Rightarrow> articles @ rss_loop env source rss_feeds
          | Inr u \<Rightarrow> articles @ rss_loop env source rss_feeds))"

definition rss_collect ::
  "'el collector_env \<Rightarrow> news_source \<Rightarrow> string list \<Rightarrow> store \<Rightarrow> (exn + candidate list) \<times> store"
where
  \<comment> \<open>\<^verbatim>\<open>RSSCollector.collect\<close> over the URLs of the source's active feeds\<close>
  "rss_collect env source rss_feeds db = finish_run env (rss_loop env source rss_feeds) db"

subsection \<open>Saving the articles\<close>

fun save_articles :: "'el collector_env \<Rightarrow> candidate list \<Rightarrow> store \<Rightarrow> int \<times> store" where
  \<comment> \<open>the module's function \<^verbatim>\<open>save_articles(articles, source)\<close>: an article whose URL is
      stored is skipped, an exception of the creation is logged\<close>
  "save_articles env [] db = (0, db)"
| "save_articles env (article_data # articles) db =
     (if cand_url article_data \<in> set (stored_urls db) then save_articles env articles db
      else (case article_create env article_data of
              Inl e \<Rightarrow> save_articles env articles db
            | Inr u \<Rightarrow>
                (let (saved_count, db') =
                       save_articles env articles
                         (db\<lparr>stored_urls := stored_urls db @ [cand_url article_data]\<rparr>)
                 in (saved_count + 1, db'))))"

section \<open>The first present key\<close>

text \<open>
  The specification speaks of the first present key of a response. This function states
  it on its own, to compare with the nested \<^verbatim>\<open>get\<close> calls of the source: the value under the
  first of the given keys that the dictionary holds, if there is one.
\<close>

fun first_present :: "(string \<times> pyval) list \<Rightarrow> string list \<Rightarrow> pyval option" where
  "first_present d [] = None"
| "first_present d (key # keys) =
     (case map_of d key of Some v \<Rightarrow> Some v | None \<Rightarrow> first_present d keys)"

section \<open>Inputs of the worked examples\<close>

definition lucro_text :: string where
  "lucro_text = ''Lucro da empresa cresceu e foi um sucesso incr'' @ CHR 0xED # ''vel''"

definition no_backends :: sentiment_env where
  "no_backends =
     \<lparr>vader_load = Inl (Exn ImportError ''No module named vaderSentiment''),
      textblob_load = Inl (Exn ImportError ''No module named textblob''),
      model_save = (\<lambda>m. Inr ()),
      elapsed = 0\<rparr>"

text \<open>
  A rule environment for the examples: the pattern \<open>(\<close> is invalid and makes
  \<^verbatim>\<open>re.sub\<close> raise; a text without markup is its own extracted text.
\<close>

definition strict_regex :: rule_env where
  "strict_regex =
     \<lparr>re_sub = (\<lambda>pattern repl t ignorecase.
         if pattern = PStr ''('' then Inl (Exn OtherError ''missing ), unterminated subpattern'')
         else Inr t),
      re_escape = (\<lambda>w. w),
      html_get_text = (\<lambda>t. Inr t)\<rparr>"

definition broken_rule :: processing_rule where
  "broken_rule =
     \<lparr>rule_name = ''broken'', rule_type = ''regex_replace'',
      parameters = PDict [(''pattern'', PStr ''(''), (''replacement'', PStr [])]\<rparr>"

definition html_rule :: processing_rule where
  "html_rule = \<lparr>rule_name = ''strip markup'', rule_type = ''html_clean'', parameters = PDict []\<rparr>"

text \<open>
  A collector environment for the examples. A parsed page is a tree of elements, each with
  its \<^verbatim>\<open>href\<close> and its text; the links and the article containers of an element are its
  children, and every selector selects them. A text without markup is its own extracted
  text, and joining the base \<open>http://x\<close> with an absolute path appends the path. The
  parameters are the parsed page, the HTTP session, the feeds and the method
  \<^verbatim>\<open>save_articles\<close> of the collector, which is \<open>missing_method\<close> in every example.
\<close>

datatype node = Node (href: string) (inner_text: string) (children: "node list")

definition example_env ::
  "node \<Rightarrow> (string \<Rightarrow> pyval \<Rightarrow> exn + http_response) \<Rightarrow> (string \<Rightarrow> exn + pyval list)
     \<Rightarrow> (candidate list \<Rightarrow> store \<Rightarrow> (exn + int) \<times> store) \<Rightarrow> node collector_env"
where
  "example_env page session feeds save_method =
     \<lparr>session_get = session,
      soup_parse = (\<lambda>html. Inr page),
      find_all_links = children,
      get_href = href,
      get_text = inner_text,
      select = (\<lambda>element selector. Inr (children element)),
      select_one = (\<lambda>element selector. Inr None),
      find_all_articles = children,
      find_heading = (\<lambda>element. Some element),
      find_link = (\<lambda>element. if href element = [] then None else Some element),
      urljoin = (\<lambda>base path. base @ path),
      soup_text = (\<lambda>v. case v of PStr t \<Rightarrow> Inr t | _ \<Rightarrow> Inl (Exn TypeError ''no markup'')),
      strptime = (\<lambda>date_str fmt. Inl (Exn ValueError ''does not match format'')),
      py_str = (\<lambda>v. case v of PStr t \<Rightarrow> t | _ \<Rightarrow> []),
      feedparser_parse = feeds,
      struct_time_to_datetime = (\<lambda>p. Inl (Exn TypeError ''no time'')),
      feed_save = (\<lambda>feed_url. Inr ()),
      article_create = (\<lambda>article_data. Inr ()),
      self_save_articles = save_method\<rparr>"

definition empty_store :: store where
  "empty_store = \<lparr>logs = [], stored_urls = []\<rparr>"

definition site :: news_source where
  "site = \<lparr>src_name = ''X'', src_url = ''http://x'', source_type = ''website'', max_articles = 1\<rparr>"

definition two_links :: node where
  "two_links =
     Node [] [] [Node ''/noticia/1'' ''Primeira'' [], Node ''/noticia/2'' ''Segunda'' []]"

definition ok_page :: "string \<Rightarrow> pyval \<Rightarrow> exn + http_response" where
  \<comment> \<open>a session that answers every request with status 200 and the page of two links\<close>
  "ok_page u headers =
     Inr \<lparr>status = 200,
          resp_text = Inr (''<a href=/noticia/1>Primeira</a><a href=/noticia/2>Segunda</a>''),
          resp_json = Inl (Exn ValueError ''not JSON'')\<rparr>"

definition not_found :: "string \<Rightarrow> pyval \<Rightarrow> exn + http_response" where
  \<comment> \<open>a session that answers every request with status 404\<close>
  "not_found u headers =
     Inr \<lparr>status = 404, resp_text = Inr ''Not Found'', resp_json = Inl (Exn ValueError ''not JSON'')\<rparr>"

definition timed_out :: "string \<Rightarrow> pyval \<Rightarrow> exn + http_response" where
  \<comment> \<open>a session whose every request raises\<close>
  "timed_out u headers = Inl (Exn OtherError ''timeout'')"

definition json_session :: "pyval \<Rightarrow> string \<Rightarrow> pyval \<Rightarrow> exn + http_response" where
  \<comment> \<open>a session that answers every request with status 200 and the given JSON value\<close>
  "json_session data u headers =
     Inr \<lparr>status = 200, resp_text = Inl (Exn OtherError ''not read''), resp_json = Inr data\<rparr>"

definition no_feeds :: "string \<Rightarrow> exn + pyval list" where
  "no_feeds u = Inl (Exn OtherError ''no feed'')"

definition api_source :: news_source where
  "api_source = \<lparr>src_name = ''X'', src_url = ''http://x'', source_type = ''api'', max_articles = 50\<rparr>"

definition api_config :: scraping_config where
  "api_config =
     \<lparr>title_selector = [], content_selector = [], author_selector = [], date_selector = [],
      api_endpoint = ''http://x/api'', api_key = [], api_headers = PDict [], date_format = []\<rparr>"

definition results_response :: pyval where
  "results_response =
     PDict [(''results'', PList [PDict [(''title'', PStr ''T''), (''url'', PStr ''http://x/1'')]])]"

definition rss_source :: news_source where
  "rss_source = \<lparr>src_name = ''X'', src_url = ''http://x'', source_type = ''rss'', max_articles = 50\<rparr>"

definition feed_entry :: "string \<Rightarrow> string \<Rightarrow> pyval" where
  "feed_entry t u = PDict [(''title'', PStr t), (''link'', PStr u)]"

definition malformed_entry :: pyval where
  \<comment> \<open>an entry whose content list is empty: \<^verbatim>\<open>entry.content[0]\<close> raises\<close>
  "malformed_entry =
     PDict [(''title'', PStr ''Quebrada''), (''link'', PStr ''http://x/q''), (''content'', PList [])]"

definition one_feed :: "string \<Rightarrow> exn + pyval list" where
  \<comment> \<open>the feed at \<open>http://x/feed\<close> has three valid entries and a malformed one\<close>
  "one_feed u =
     (if u = ''http://x/feed''
      then Inr [feed_entry ''Um'' ''http://x/1'', malformed_entry,
                feed_entry ''Dois'' ''http://x/2'', feed_entry ''Tres'' ''http://x/3'']
      else Inl (Exn OtherError ''no such feed''))"

section \<open>Verified properties\<close>

subsection \<open>Substrings and the lexicon counts\<close>

lemma startswith_iff: "startswith t w \<longleftrightarrow> (\<exists>s. t = w @ s)"
  by (induction t w rule: startswith.induct) auto

lemma str_contains_iff: "str_contains w t \<longleftrightarrow> (\<exists>p s. t = p @ w @ s)"
proof (induction t)
  case Nil
  then show ?case by simp
next
  case (Cons c cs)
  have "(\<exists>p s. c # cs = p @ w @ s) \<longleftrightarrow> (\<exists>s. c # cs = w @ s) \<or> (\<exists>p s. cs = p @ w @ s)"
  proof
    assume "\<exists>p s. c # cs = p @ w @ s"
    then obtain p s where ps: "c # cs = p @ w @ s" by blast
    show "(\<exists>s. c # cs = w @ s) \<or> (\<exists>p s. cs = p @ w @ s)"
    proof (cases p)
      case Nil
      with ps show ?thesis by auto
    next
      case (Cons a p')
      with ps have "cs = p' @ w @ s" by simp
      then show ?thesis by blast
    qed
  next
    assume "(\<exists>s. c # cs = w @ s) \<or> (\<exists>p s. cs = p @ w @ s)"
    then show "\<exists>p s. c # cs = p @ w @ s"
    proof
      assume "\<exists>s. c # cs = w @ s"
      then obtain s where "c # cs = [] @ w @ s" by auto
      then show ?thesis by blast
    next
      assume "\<exists>p s. cs = p @ w @ s"
      then obtain p s where "c # cs = (c # p) @ w @ s" by auto
      then show ?thesis by blast
    qed
  qed
  with Cons show ?case by (simp add: startswith_iff)
qed

lemma distinct_positive_words: "distinct positive_words"
  by (simp add: positive_words_def)

lemma distinct_negative_words: "distinct negative_words"
  by (simp add: negative_words_def)

lemma length_lexicons: "length positive_words = 12" "length negative_words = 12"
  by (simp_all add: positive_words_def negative_words_def)

lemma count_is_card:
  "distinct ws \<Longrightarrow> length (filter P ws) = card {w \<in> set ws. P w}"
  by (simp add: distinct_length_filter Int_def conj_commute)

text \<open>
  Claim C10. In the fallback sentiment algorithm the positive and the negative count are
  the numbers of distinct lexicon words that occur as contiguous substrings of the
  lowercased text. A lexicon word counts once however often it occurs, it also counts
  when it stands inside a longer word (\<open>problemas\<close> holds \<open>problema\<close>), and each
  count is at most 12, the size of its lexicon, whatever the length of the text. The text
  is lowercased before the search, accented letters included: \<open>LUCRO E SUCESSO\<close> has two
  positive hits, though no lexicon word occurs in the text as it is written.
\<close>

theorem fallback_counts_distinct_substrings:
  "positive_count text = card {w \<in> set positive_words. \<exists>p s. lower text = p @ w @ s}
   \<and> negative_count text = card {w \<in> set negative_words. \<exists>p s. lower text = p @ w @ s}
   \<and> positive_count text \<le> 12 \<and> negative_count text \<le> 12
   \<and> distinct positive_words \<and> length positive_words = 12
   \<and> distinct negative_words \<and> length negative_words = 12
   \<and> negative_count ''problemas'' = 1
   \<and> positive_count ''bom, bom e bom'' = 1
   \<and> lower ''LUCRO e Sucesso'' = ''lucro e sucesso''
   \<and> positive_count ''LUCRO E SUCESSO'' = 2
   \<and> negative_count ''PROBLEMAS'' = 1
   \<and> lower (CHR 0xD3 # ''TIMO'') = CHR 0xF3 # ''timo''
   \<and> positive_count (CHR 0xD3 # ''TIMO'') = 1
   \<and> length (filter (\<lambda>w. \<exists>p s. ''LUCRO E SUCESSO'' = p @ w @ s) positive_words) = 0"
proof -
  have p: "positive_count text = card {w \<in> set positive_words. \<exists>p s. lower text = p @ w @ s}"
    unfolding positive_count_def
    using count_is_card [OF distinct_positive_words, of "\<lambda>w. str_contains w (lower text)"]
    by (simp add: str_contains_iff)
  have n: "negative_count text = card {w \<in> set negative_words. \<exists>p s. lower text = p @ w @ s}"
    unfolding negative_count_def
    using count_is_card [OF distinct_negative_words, of "\<lambda>w. str_contains w (lower text)"]
    by (simp add: str_contains_iff)
  have pb: "positive_count text \<le> 12"
    unfolding positive_count_def using length_filter_le [of _ positive_words]
    by (metis length_lexicons(1))
  have nb: "negative_count text \<le> 12"
    unfolding negative_count_def using length_filter_le [of _ negative_words]
    by (metis length_lexicons(2))
  have e1: "negative_count ''problemas'' = 1" by code_simp
  have e2: "positive_count ''bom, bom e bom'' = 1" by code_simp
  have u0: "lower ''LUCRO e Sucesso'' = ''lucro e sucesso''" by code_simp
  have u1: "positive_count ''LUCRO E SUCESSO'' = 2" by code_simp
  have u2: "negative_count ''PROBLEMAS'' = 1" by code_simp
  have u3: "lower (CHR 0xD3 # ''TIMO'') = CHR 0xF3 # ''timo''" by code_simp
  have u4: "positive_count (CHR 0xD3 # ''TIMO'') = 1" by code_simp
  have "filter (\<lambda>w. str_contains w ''LUCRO E SUCESSO'') positive_words = []" by code_simp
  then have u5: "length (filter (\<lambda>w. \<exists>p s. ''LUCRO E SUCESSO'' = p @ w @ s) positive_words) = 0"
    by (simp add: str_contains_iff)
  show ?thesis
    using p n pb nb e1 e2 u0 u1 u2 u3 u4 u5 distinct_positive_words distinct_negative_words
      length_lexicons
    by blast
qed

theorem fallback_counts_distinct_substrings_witness:
  "positive_count ''SUCESSO e mais Sucesso'' \<le> 12
   \<and> positive_count ''SUCESSO e mais Sucesso'' = 1
   \<and> negative_count ''SUCESSO e mais Sucesso'' = 0"
proof -
  have "positive_count ''SUCESSO e mais Sucesso'' \<le> 12"
    using fallback_counts_distinct_substrings [of "''SUCESSO e mais Sucesso''"] by blast
  moreover have "positive_count ''SUCESSO e mais Sucesso'' = 1" by code_simp
  moreover have "negative_count ''SUCESSO e mais Sucesso'' = 0" by code_simp
  ultimately show ?thesis by blast
qed

subsection \<open>Sentiment analysis\<close>

lemma analyze_vader_unavailable:
  "isl (vader_load env) \<or> (\<exists>f. vader_load env = Inr f \<and> isl (f text)) \<Longrightarrow>
     isl (analyze_vader env text) \<or> analyze_vader env text = Inr (fallback_sentiment text)"
  by (auto simp: analyze_vader_def split: sum.splits)

lemma analyze_textblob_unavailable:
  "isl (textblob_load env) \<or> (\<exists>f. textblob_load env = Inr f \<and> isl (f text)) \<Longrightarrow>
     isl (analyze_textblob env text) \<or> analyze_textblob env text = Inr (fallback_sentiment text)"
  by (auto simp: analyze_textblob_def split: sum.splits)

lemma analyze_sentiment_degrades:
  assumes "text \<noteq> []"
    and "isl backend \<or> backend = Inr (fallback_sentiment text)"
  shows "fst (case backend of
                Inl e \<Rightarrow> (fallback_sentiment text, Some m)
              | Inr result \<Rightarrow>
                  (let m' = update_stats (elapsed env) m
                   in case model_save env m' of
                        Inl e \<Rightarrow> (fallback_sentiment text, Some m')
                      | Inr u \<Rightarrow> (result, Some m'))) = fallback_sentiment text"
  using assms by (auto simp: Let_def isl_def split: sum.splits)

text \<open>
  Claim C5, as the code has it. For a text that is not empty, sentiment analysis returns
  the result of the lexicon-count fallback when no model is configured, when the model's
  type is neither \<open>vader\<close> nor \<open>textblob\<close>, or when the model's backend cannot be
  loaded or raises. The fallback compares the positive with the negative count: score 0.3
  and label \<open>positive\<close> when the positives are more, -0.3 and \<open>negative\<close> when the
  negatives are more, 0.0 and \<open>neutral\<close> on a tie, always with confidence 0.5. The text
  \<^verbatim>\<open>Lucro da empresa cresceu e foi um sucesso incr\u00edvel\<close>, whose last word has the letter
  i with an acute accent (code point 237, \<open>CHR 0xED\<close>), has 3 positive hits (\<open>lucro\<close>,
  \<open>sucesso\<close> and the accented word) and no negative one, and yields score 0.3,
  \<open>positive\<close>, confidence 0.5. The empty text never reaches the fallback: its result is
  score 0.0, \<open>neutral\<close>, confidence 0.0.
\<close>

theorem fallback_sentiment_without_backend:
  assumes "text \<noteq> []"
    and "model = None
         \<or> (\<exists>m. model = Some m
              \<and> (model_type m \<noteq> ''vader'' \<and> model_type m \<noteq> ''textblob''
                 \<or> model_type m = ''vader''
                    \<and> (isl (vader_load env) \<or> (\<exists>f. vader_load env = Inr f \<and> isl (f text)))
                 \<or> model_type m = ''textblob''
                    \<and> (isl (textblob_load env) \<or> (\<exists>f. textblob_load env = Inr f \<and> isl (f text)))))"
  shows "fst (analyze_sentiment env model text) = fallback_sentiment text
         \<and> confidence (fallback_sentiment text) = 0.5
         \<and> (positive_count text > negative_count text \<longrightarrow>
              score (fallback_sentiment text) = 0.3 \<and> label (fallback_sentiment text) = ''positive'')
         \<and> (negative_count text > positive_count text \<longrightarrow>
              score (fallback_sentiment text) = - 0.3 \<and> label (fallback_sentiment text) = ''negative'')
         \<and> (positive_count text = negative_count text \<longrightarrow>
              score (fallback_sentiment text) = 0.0 \<and> label (fallback_sentiment text) = ''neutral'')
         \<and> lucro_text = ''Lucro da empresa cresceu e foi um sucesso incr'' @ [CHR 0xED] @ ''vel''
         \<and> positive_count lucro_text = 3 \<and> negative_count lucro_text = 0
         \<and> fst (analyze_sentiment env None lucro_text) =
             \<lparr>score = 0.3, label = ''positive'', confidence = 0.5,
              details = Some (LexiconCounts 3 0)\<rparr>
         \<and> fst (analyze_sentiment env model []) =
             \<lparr>score = 0.0, label = ''neutral'', confidence = 0.0, details = None\<rparr>"
proof -
  have main: "fst (analyze_sentiment env model text) = fallback_sentiment text"
  proof (cases model)
    case None
    with assms(1) show ?thesis by (simp add: analyze_sentiment_def)
  next
    case (Some m)
    with assms(2) consider
        (other) "model_type m \<noteq> ''vader''" "model_type m \<noteq> ''textblob''"
      | (vader) "model_type m = ''vader''"
          "isl (vader_load env) \<or> (\<exists>f. vader_load env = Inr f \<and> isl (f text))"
      | (textblob) "model_type m = ''textblob''"
          "isl (textblob_load env) \<or> (\<exists>f. textblob_load env = Inr f \<and> isl (f text))"
      by auto
    then show ?thesis
    proof cases
      case other
      with Some assms(1) show ?thesis
        using analyze_sentiment_degrades [OF assms(1), of "Inr (fallback_sentiment text)" m env]
        by (simp add: analyze_sentiment_def)
    next
      case vader
      with Some assms(1) show ?thesis
        using analyze_sentiment_degrades
                [OF assms(1) analyze_vader_unavailable [OF vader(2)], of m env]
        by (simp add: analyze_sentiment_def)
    next
      case textblob
      with Some assms(1) show ?thesis
        using analyze_sentiment_degrades
                [OF assms(1) analyze_textblob_unavailable [OF textblob(2)], of m env]
        by (simp add: analyze_sentiment_def)
    qed
  qed
  have p3: "positive_count lucro_text = 3" by code_simp
  have n0: "negative_count lucro_text = 0" by code_simp
  have ne: "lucro_text \<noteq> []" by (simp add: lucro_text_def)
  have sc: "fst (analyze_sentiment env None lucro_text) =
             \<lparr>score = 0.3, label = ''positive'', confidence = 0.5,
              details = Some (LexiconCounts 3 0)\<rparr>"
    using ne by (simp add: analyze_sentiment_def fallback_sentiment_def p3 n0)
  have lt: "lucro_text = ''Lucro da empresa cresceu e foi um sucesso incr'' @ [CHR 0xED] @ ''vel''"
    by (simp add: lucro_text_def)
  have em: "fst (analyze_sentiment env model []) =
             \<lparr>score = 0.0, label = ''neutral'', confidence = 0.0, details = None\<rparr>"
    by (simp add: analyze_sentiment_def)
  show ?thesis
    using main p3 n0 sc lt em by (simp add: fallback_sentiment_def Let_def)
qed

theorem fallback_sentiment_without_backend_witness:
  "fst (analyze_sentiment no_backends
          (Some \<lparr>model_type = ''vader'', total_processed = 0, avg_processing_time = None\<rparr>)
          ''Crise e queda'')
     = \<lparr>score = - 0.3, label = ''negative'', confidence = 0.5, details = Some (LexiconCounts 0 2)\<rparr>"
proof -
  have a: "''Crise e queda'' \<noteq> []" by simp
  have b: "isl (vader_load no_backends)" by (simp add: no_backends_def)
  have p: "positive_count ''Crise e queda'' = 0" by code_simp
  have n: "negative_count ''Crise e queda'' = 2" by code_simp
  have "fst (analyze_sentiment no_backends
          (Some \<lparr>model_type = ''vader'', total_processed = 0, avg_processing_time = None\<rparr>)
          ''Crise e queda'') = fallback_sentiment ''Crise e queda''"
    using fallback_sentiment_without_backend
      [of "''Crise e queda''"
          "Some \<lparr>model_type = ''vader'', total_processed = 0, avg_processing_time = None\<rparr>"
          no_backends] a b
    by simp
  then show ?thesis by (simp add: fallback_sentiment_def p n)
qed

text \<open>
  The empty text does not reach the fallback: the guard at the head of the analysis
  returns confidence 0.0 and no details, where the fallback would give confidence 0.5.
\<close>

theorem empty_text_is_not_fallback:
  "confidence (fst (analyze_sentiment no_backends None [])) = 0
   \<and> confidence (fallback_sentiment []) = 0.5
   \<and> details (fst (analyze_sentiment no_backends None [])) = None"
  by (simp add: analyze_sentiment_def fallback_sentiment_def Let_def)

text \<open>
  Claim C6. For the empty text each analyzer returns its neutral or empty result before
  it looks at a model, an extractor or a backend: sentiment is score 0.0, label
  \<open>neutral\<close>, confidence 0.0; the entity list and the keyword list are empty; the
  model and extractor rows are left as they were.
\<close>

theorem empty_text_results:
  "analyze_sentiment senv model [] =
     (\<lparr>score = 0.0, label = ''neutral'', confidence = 0.0, details = None\<rparr>, model)
   \<and> extract_entities eenv extractor [] = ([], extractor)
   \<and> extract_keywords kenv kw_extractor [] = ([], kw_extractor)"
  by (simp add: analyze_sentiment_def extract_entities_def extract_keywords_def)

theorem empty_text_results_witness:
  "fst (analyze_sentiment no_backends
          (Some \<lparr>model_type = ''vader'', total_processed = 7, avg_processing_time = Some 2\<rparr>) [])
     = \<lparr>score = 0.0, label = ''neutral'', confidence = 0.0, details = None\<rparr>
   \<and> snd (analyze_sentiment no_backends
          (Some \<lparr>model_type = ''vader'', total_processed = 7, avg_processing_time = Some 2\<rparr>) [])
     = Some \<lparr>model_type = ''vader'', total_processed = 7, avg_processing_time = Some 2\<rparr>"
  using empty_text_results
    [of no_backends
        "Some \<lparr>model_type = ''vader'', total_processed = 7, avg_processing_time = Some 2\<rparr>"]
  by simp

subsection \<open>Quality scoring\<close>

lemma split_acc_nonempty: "split_sentences_acc piece in_run t \<noteq> []"
  by (induction piece in_run t rule: split_sentences_acc.induct) auto

lemma split_sentences_positive: "length (split_sentences text) > 0"
  by (simp add: split_sentences_def split_acc_nonempty)

lemma readability_cases:
  "calculate_readability text =
     (if text = [] \<or> length (str_split text) = 0 then Inr 0
      else Inr (max 0 (min 1 ((206.835
                  - 1.015 * (real (length (str_split text)) / real (length (split_sentences text)))
                  - 84.6 * (real (count_syllables text) / real (length (str_split text)))) / 100))))"
  using split_sentences_positive [of "text"]
  by (simp add: calculate_readability_def truediv_def Let_def)

lemma readability_range:
  "calculate_readability text = Inr r \<Longrightarrow> 0 \<le> r \<and> r \<le> 1"
  by (auto simp: readability_cases split: if_splits)

text \<open>
  Claim C8. The readability computation never divides by zero: it returns a number for
  every text, 0.0 for the empty text and 0.0 whenever the word count or the sentence count
  is zero; otherwise both divisions of the Flesch-type formula have a positive divisor and
  the result is the formula's value over 100, clamped to the interval from 0 to 1.
\<close>

theorem readability_never_divides_by_zero:
  "(\<exists>r. calculate_readability text = Inr r)
   \<and> calculate_readability [] = Inr 0
   \<and> (length (str_split text) = 0 \<or> length (split_sentences text) = 0 \<longrightarrow>
        calculate_readability text = Inr 0)
   \<and> (text \<noteq> [] \<and> length (str_split text) \<noteq> 0 \<and> length (split_sentences text) \<noteq> 0 \<longrightarrow>
        truediv (real (length (str_split text))) (real (length (split_sentences text)))
          = Inr (real (length (str_split text)) / real (length (split_sentences text)))
        \<and> truediv (real (count_syllables text)) (real (length (str_split text)))
          = Inr (real (count_syllables text) / real (length (str_split text)))
        \<and> calculate_readability text =
            Inr (max 0 (min 1 ((206.835
                  - 1.015 * (real (length (str_split text)) / real (length (split_sentences text)))
                  - 84.6 * (real (count_syllables text) / real (length (str_split text)))) / 100))))"
  using split_sentences_positive [of "text"]
  by (simp add: readability_cases truediv_def)

theorem readability_never_divides_by_zero_witness:
  "calculate_readability ''   '' = Inr 0
   \<and> calculate_readability ''O gato comeu. O rato fugiu!'' = Inr (7121 / 20000)"
proof -
  have w0: "length (str_split ''   '') = 0" by code_simp
  have a: "calculate_readability ''   '' = Inr 0"
    using readability_never_divides_by_zero [of "''   ''"] w0 by blast
  have w: "length (str_split ''O gato comeu. O rato fugiu!'') = 6" by code_simp
  have s: "length (split_sentences ''O gato comeu. O rato fugiu!'') = 3" by code_simp
  have y: "count_syllables ''O gato comeu. O rato fugiu!'' = 12" by code_simp
  have b: "calculate_readability ''O gato comeu. O rato fugiu!'' = Inr (7121 / 20000)"
    using readability_never_divides_by_zero [of "''O gato comeu. O rato fugiu!''"]
    by (simp add: w s y)
  show ?thesis using a b by blast
qed

lemma completeness_range: "0 \<le> calculate_completeness a \<and> calculate_completeness a \<le> 1"
  by (simp add: calculate_completeness_def Let_def)

lemma accuracy_range: "0 \<le> calculate_accuracy env a \<and> calculate_accuracy env a \<le> 1"
  by (simp add: calculate_accuracy_def Let_def)

lemma relevance_range: "0 \<le> calculate_relevance a \<and> calculate_relevance a \<le> 1"
  by (simp add: calculate_relevance_def Let_def min_def)

lemma weights_sum: "sum_list (map snd weights) = 1"
  by (simp add: weights_def)

lemma convex_bound:
  fixes r c a v :: real
  assumes "0 \<le> r" "r \<le> 1" "0 \<le> c" "c \<le> 1" "0 \<le> a" "a \<le> 1" "0 \<le> v" "v \<le> 1"
  shows "0 \<le> r * 0.2 + c * 0.3 + a * 0.25 + v * 0.25 \<and> r * 0.2 + c * 0.3 + a * 0.25 + v * 0.25 \<le> 1"
  using assms by simp

text \<open>
  Claim C7. The quality score of every article is computed without an error; its overall
  score is the dot product of the four sub-scores with the weights readability 0.20,
  completeness 0.30, accuracy 0.25, relevance 0.25; the weights sum to 1.0; each
  sub-score lies between 0 and 1, and so does the overall score.
\<close>

theorem quality_overall_weighted:
  "\<exists>q r. calculate_quality_score env a = Inr q
     \<and> calculate_readability (content a) = Inr r
     \<and> scores q = [(''readability'', r), (''completeness'', calculate_completeness a),
                    (''accuracy'', calculate_accuracy env a),
                    (''relevance'', calculate_relevance a)]
     \<and> overall_score q = r * 0.20 + calculate_completeness a * 0.30
                          + calculate_accuracy env a * 0.25 + calculate_relevance a * 0.25
     \<and> map_of weights ''readability'' = Some 0.20 \<and> map_of weights ''completeness'' = Some 0.30
     \<and> map_of weights ''accuracy'' = Some 0.25 \<and> map_of weights ''relevance'' = Some 0.25
     \<and> sum_list (map snd weights) = 1.0
     \<and> 0 \<le> r \<and> r \<le> 1
     \<and> 0 \<le> calculate_completeness a \<and> calculate_completeness a \<le> 1
     \<and> 0 \<le> calculate_accuracy env a \<and> calculate_accuracy env a \<le> 1
     \<and> 0 \<le> calculate_relevance a \<and> calculate_relevance a \<le> 1
     \<and> 0 \<le> overall_score q \<and> overall_score q \<le> 1"
proof -
  obtain r where r: "calculate_readability (content a) = Inr r"
    using readability_cases [of "content a"] by (auto split: if_splits)
  have rr: "0 \<le> r \<and> r \<le> 1" using readability_range [OF r] .
  define q where "q = \<lparr>overall_score = r * 0.2 + calculate_completeness a * 0.3
                          + calculate_accuracy env a * 0.25 + calculate_relevance a * 0.25,
                        scores = [(''readability'', r), (''completeness'', calculate_completeness a),
                                  (''accuracy'', calculate_accuracy env a),
                                  (''relevance'', calculate_relevance a)],
                        factors = get_quality_factors a\<rparr>"
  have q: "calculate_quality_score env a = Inr q"
    by (simp add: calculate_quality_score_def r Let_def weights_def q_def)
  have b: "0 \<le> overall_score q \<and> overall_score q \<le> 1"
    using convex_bound rr completeness_range [of a] accuracy_range [of env a] relevance_range [of a]
    by (simp add: q_def)
  have w: "map_of weights ''readability'' = Some 0.20 \<and> map_of weights ''completeness'' = Some 0.30
     \<and> map_of weights ''accuracy'' = Some 0.25 \<and> map_of weights ''relevance'' = Some 0.25"
    by (simp add: weights_def)
  show ?thesis
    using q r rr b w weights_sum completeness_range [of a] accuracy_range [of env a]
      relevance_range [of a]
    by (intro exI [of _ q] exI [of _ r]) (simp add: q_def)
qed

theorem quality_overall_weighted_witness:
  "\<exists>q. calculate_quality_score
          \<lparr>search_date = (\<lambda>s. False), search_number = (\<lambda>s. True), search_name = (\<lambda>s. False)\<rparr>
          \<lparr>title = ''Lucro recorde em 2024'', content = ''O lucro cresceu 10 por cento.'',
           author = ''Ana'', published_date = None, url = ''http://x/1'',
           article_keywords = [''lucro''], article_entities = []\<rparr> = Inr q
       \<and> 0 \<le> overall_score q \<and> overall_score q \<le> 1"
  using quality_overall_weighted
    [of "\<lparr>search_date = (\<lambda>s. False), search_number = (\<lambda>s. True), search_name = (\<lambda>s. False)\<rparr>"
        "\<lparr>title = ''Lucro recorde em 2024'', content = ''O lucro cresceu 10 por cento.'',
          author = ''Ana'', published_date = None, url = ''http://x/1'',
          article_keywords = [''lucro''], article_entities = []\<rparr>"]
  by blast

subsection \<open>The rule engine\<close>

lemma apply_rules_returns: "\<exists>t'. apply_rules env rules t = Inr t'"
  by (induction rules arbitrary: t) (auto split: sum.splits)

lemma apply_rules_append:
  "apply_rules env (before @ after) t =
     (case apply_rules env before t of Inl e \<Rightarrow> Inl e | Inr t' \<Rightarrow> apply_rules env after t')"
  by (induction before arbitrary: t) (auto split: sum.splits)

text \<open>
  Claim C9. For every text and every rule list the rule engine returns a text and raises
  nothing. A rule that raises is skipped: the rules after it run on the text the rules
  before it produced, and a rule that succeeds hands its result on. With the empty rule
  list the text comes back unchanged.
\<close>

theorem apply_rules_skips_failing_rule:
  "(\<exists>t'. apply_rules env rules t = Inr t')
   \<and> apply_rules env [] t = Inr t
   \<and> (apply_rules env before t = Inr t' \<and> isl (apply_rule env rule t') \<longrightarrow>
        apply_rules env (before @ rule # after) t = apply_rules env after t')
   \<and> (apply_rules env before t = Inr t' \<and> apply_rule env rule t' = Inr t'' \<longrightarrow>
        apply_rules env (before @ rule # after) t = apply_rules env after t'')"
proof -
  have a: "\<exists>t'. apply_rules env rules t = Inr t'" by (rule apply_rules_returns)
  have b: "apply_rules env [] t = Inr t" by simp
  have c: "apply_rules env (before @ rule # after) t = apply_rules env after t'"
    if "apply_rules env before t = Inr t'" "isl (apply_rule env rule t')"
    using that by (auto simp: apply_rules_append isl_def)
  have d: "apply_rules env (before @ rule # after) t = apply_rules env after t''"
    if "apply_rules env before t = Inr t'" "apply_rule env rule t' = Inr t''"
    using that by (simp add: apply_rules_append)
  show ?thesis using a b c d by blast
qed

theorem apply_rules_skips_failing_rule_witness:
  "isl (apply_rule strict_regex broken_rule ''lucro em alta'')
   \<and> apply_rules strict_regex [html_rule, broken_rule, html_rule] ''lucro em alta''
       = apply_rules strict_regex [html_rule] ''lucro em alta''
   \<and> apply_rules strict_regex [html_rule, broken_rule, html_rule] ''lucro em alta''
       = Inr ''lucro em alta''"
proof -
  have h1: "apply_rules strict_regex [html_rule] ''lucro em alta'' = Inr ''lucro em alta''"
    by (simp add: apply_rule_def html_rule_def clean_html_def strict_regex_def)
  have h2: "isl (apply_rule strict_regex broken_rule ''lucro em alta'')"
    by (simp add: apply_rule_def broken_rule_def apply_regex_replace_def try_bind_def
        py_in_def py_getitem_def strict_regex_def)
  have "apply_rules strict_regex ([html_rule] @ broken_rule # [html_rule]) ''lucro em alta''
        = apply_rules strict_regex [html_rule] ''lucro em alta''"
    using apply_rules_skips_failing_rule
      [of strict_regex _ "''lucro em alta''" "[html_rule]" "''lucro em alta''" broken_rule "[html_rule]"]
      h1 h2 by blast
  then show ?thesis using h1 h2 by simp
qed

subsection \<open>The Website collector\<close>

lemma py_take_length: "0 \<le> n \<Longrightarrow> int (length (py_take n xs)) \<le> n"
  by (simp add: py_take_def)

lemma py_take_20: "length (py_take 20 xs) \<le> 20"
  by (simp add: py_take_def)

lemma auto_extract_loop_length: "length (auto_extract_loop env source links) \<le> length links"
  by (induction links) (auto simp: Let_def)

lemma map_filter_length: "length (List.map_filter f xs) \<le> length xs"
  by (simp add: List.map_filter_def)

lemma auto_extract_length: "length (auto_extract_articles env source soup) \<le> 20"
  unfolding auto_extract_articles_def
  using auto_extract_loop_length [of env source "py_take 20 (find_all_links env soup)"]
    py_take_20 [of "find_all_links env soup"]
  by linarith

lemma config_extract_length:
  assumes "0 \<le> max_articles source"
    and "config_extract_articles env source c soup = Inr articles"
  shows "int (length articles) \<le> max_articles source"
proof -
  from assms(2) obtain elements where
    a: "articles = List.map_filter (extract_article_data env source (Some c))
                     (py_take (max_articles source) elements)"
    by (auto simp: config_extract_articles_def try_bind_def split: sum.splits if_splits)
  have "length articles \<le> length (py_take (max_articles source) elements)"
    unfolding a by (rule map_filter_length)
  with py_take_length [OF assms(1), of elements] show ?thesis by linarith
qed

lemma finish_run_articles:
  "fst (finish_run env articles db) = Inr found \<Longrightarrow> found = articles"
  by (auto simp: finish_run_def split: prod.splits sum.splits)

lemma fetched_page_found:
  assumes "try_bind (session_get env u h)
             (\<lambda>response. if status response = 200
                then try_bind (resp_text response) parse else Inr []) = Inr found"
  shows "found = [] \<or> (\<exists>html. parse html = Inr found)"
proof (cases "session_get env u h")
  case (Inl e)
  with assms show ?thesis by (simp add: try_bind_def)
next
  case got: (Inr response)
  show ?thesis
  proof (cases "status response = 200")
    case False
    with got assms show ?thesis by (simp add: try_bind_def)
  next
    case True
    with got assms have t: "try_bind (resp_text response) parse = Inr found"
      by (simp add: try_bind_def)
    show ?thesis
    proof (cases "resp_text response")
      case (Inl e)
      with t show ?thesis by (simp add: try_bind_def)
    next
      case (Inr html)
      with t have "parse html = Inr found" by (simp add: try_bind_def)
      then show ?thesis by blast
    qed
  qed
qed

lemma website_collect_found:
  assumes "fst (website_collect env source config db) = Inr articles"
  shows "articles = [] \<or> (\<exists>html. parse_html env source config html = Inr articles)"
proof (cases "try_bind (session_get env (src_url source) PNone)
             (\<lambda>response. if status response = 200
                then try_bind (resp_text response) (parse_html env source config)
                else Inr [])")
  case (Inl e)
  then have "website_collect env source config db = (Inr [], log_collection ''error'' 0 [msg e] db)"
    by (simp add: website_collect_def)
  with assms show ?thesis by simp
next
  case fetched: (Inr found)
  then have "website_collect env source config db = finish_run env found db"
    by (simp add: website_collect_def)
  with assms have "found = articles"
    using finish_run_articles [of env found db articles] by simp
  with fetched_page_found [OF fetched] show ?thesis by simp
qed

lemma parse_html_heuristic_length:
  assumes "parse_html env source None html = Inr articles"
  shows "length articles \<le> 20"
proof (cases "soup_parse env html")
  case (Inl e)
  with assms show ?thesis by (simp add: parse_html_def try_bind_def)
next
  case (Inr soup)
  with assms have "articles = auto_extract_articles env source soup"
    by (simp add: parse_html_def try_bind_def)
  then show ?thesis by (simp add: auto_extract_length)
qed

lemma parse_html_config_length:
  assumes "0 \<le> max_articles source"
    and "parse_html env source (Some c) html = Inr articles"
  shows "int (length articles) \<le> max_articles source"
proof (cases "soup_parse env html")
  case (Inl e)
  with assms(2) show ?thesis by (simp add: parse_html_def try_bind_def)
next
  case (Inr soup)
  with assms(2) have "config_extract_articles env source c soup = Inr articles"
    by (simp add: parse_html_def try_bind_def)
  with assms(1) show ?thesis by (rule config_extract_length)
qed

text \<open>
  Claim C4, as the code has it. The heuristic extraction (no selector configuration)
  scans the first 20 links of the page and returns at most 20 candidates, whatever
  \<open>max_articles\<close> is. With a selector configuration and a \<open>max_articles\<close> that is
  not negative, the Website collector returns at most \<open>max_articles\<close> candidates.
  Both bounds hold for the page parser and for the whole collection run.
\<close>

theorem website_candidates_bounded:
  "length (auto_extract_articles env source soup) \<le> 20
   \<and> (parse_html env source None html = Inr articles \<longrightarrow> length articles \<le> 20)
   \<and> (0 \<le> max_articles source \<and> parse_html env source (Some c) html = Inr articles \<longrightarrow>
        int (length articles) \<le> max_articles source)
   \<and> (fst (website_collect env source None db) = Inr articles \<longrightarrow> length articles \<le> 20)
   \<and> (0 \<le> max_articles source \<and> fst (website_collect env source (Some c) db) = Inr articles \<longrightarrow>
        int (length articles) \<le> max_articles source)"
proof (intro conjI impI)
  show "length (auto_extract_articles env source soup) \<le> 20"
    by (rule auto_extract_length)
next
  assume "parse_html env source None html = Inr articles"
  then show "length articles \<le> 20" by (rule parse_html_heuristic_length)
next
  assume "0 \<le> max_articles source \<and> parse_html env source (Some c) html = Inr articles"
  then show "int (length articles) \<le> max_articles source"
    using parse_html_config_length by blast
next
  assume "fst (website_collect env source None db) = Inr articles"
  from website_collect_found [OF this] show "length articles \<le> 20"
    using parse_html_heuristic_length by fastforce
next
  assume a: "0 \<le> max_articles source \<and> fst (website_collect env source (Some c) db) = Inr articles"
  then have "articles = [] \<or> (\<exists>html. parse_html env source (Some c) html = Inr articles)"
    using website_collect_found by blast
  with a show "int (length articles) \<le> max_articles source"
    using parse_html_config_length by fastforce
qed

theorem website_candidates_bounded_witness:
  "parse_html (example_env two_links ok_page no_feeds missing_method) site (Some api_config)
     ''<a href=/noticia/1>Primeira</a><a href=/noticia/2>Segunda</a>''
     = Inr [\<lparr>cand_title = ''Primeira'', cand_url = PStr ''http://x/noticia/1'',
             cand_content = [], cand_author = [], cand_published_date = None\<rparr>]
   \<and> int (length [\<lparr>cand_title = ''Primeira'', cand_url = PStr ''http://x/noticia/1'',
             cand_content = [], cand_author = [], cand_published_date = None\<rparr>])
       \<le> max_articles site
   \<and> length (auto_extract_articles (example_env two_links ok_page no_feeds missing_method) site
                two_links) = 2
   \<and> fst (website_collect (example_env two_links timed_out no_feeds missing_method) site
            (Some api_config) empty_store) = Inr []"
proof -
  let ?env = "example_env two_links ok_page no_feeds missing_method"
  let ?c = "\<lparr>cand_title = ''Primeira'', cand_url = PStr ''http://x/noticia/1'',
             cand_content = [], cand_author = [], cand_published_date = None\<rparr>"
  have m: "0 \<le> max_articles site" by (simp add: site_def)
  have r: "parse_html ?env site (Some api_config)
             ''<a href=/noticia/1>Primeira</a><a href=/noticia/2>Segunda</a>'' = Inr [?c]"
    by code_simp
  have b: "int (length [?c]) \<le> max_articles site"
    using website_candidates_bounded
      [of ?env site _ "''<a href=/noticia/1>Primeira</a><a href=/noticia/2>Segunda</a>''"
          "[?c]" api_config] m r
    by blast
  have h: "length (auto_extract_articles ?env site two_links) = 2" by code_simp
  have w: "fst (website_collect (example_env two_links timed_out no_feeds missing_method) site
            (Some api_config) empty_store) = Inr []"
    by code_simp
  show ?thesis using r b h w by blast
qed

text \<open>
  With \<open>max_articles\<close> 1 and a page of two article links, the heuristic path returns two
  candidates. The slice \<^verbatim>\<open>[:max_articles]\<close> of the configured path counts a negative
  \<open>max_articles\<close> from the end: with -1 and two containers it returns one candidate.
\<close>

theorem heuristic_path_exceeds_max_articles:
  "max_articles site = 1
   \<and> parse_html (example_env two_links ok_page no_feeds missing_method) site None
        ''<a href=/noticia/1>Primeira</a><a href=/noticia/2>Segunda</a>''
     = Inr [\<lparr>cand_title = ''Primeira'', cand_url = PStr ''http://x/noticia/1'',
             cand_content = [], cand_author = [], cand_published_date = None\<rparr>,
            \<lparr>cand_title = ''Segunda'', cand_url = PStr ''http://x/noticia/2'',
             cand_content = [], cand_author = [], cand_published_date = None\<rparr>]
   \<and> config_extract_articles (example_env two_links ok_page no_feeds missing_method)
        (site\<lparr>max_articles := - 1\<rparr>) api_config two_links
     = Inr [\<lparr>cand_title = ''Primeira'', cand_url = PStr ''http://x/noticia/1'',
             cand_content = [], cand_author = [], cand_published_date = None\<rparr>]"
proof -
  have a: "max_articles site = 1" by (simp add: site_def)
  have b: "parse_html (example_env two_links ok_page no_feeds missing_method) site None
        ''<a href=/noticia/1>Primeira</a><a href=/noticia/2>Segunda</a>''
     = Inr [\<lparr>cand_title = ''Primeira'', cand_url = PStr ''http://x/noticia/1'',
             cand_content = [], cand_author = [], cand_published_date = None\<rparr>,
            \<lparr>cand_title = ''Segunda'', cand_url = PStr ''http://x/noticia/2'',
             cand_content = [], cand_author = [], cand_published_date = None\<rparr>]"
    by code_simp
  have d: "config_extract_articles (example_env two_links ok_page no_feeds missing_method)
        (site\<lparr>max_articles := - 1\<rparr>) api_config two_links
     = Inr [\<lparr>cand_title = ''Primeira'', cand_url = PStr ''http://x/noticia/1'',
             cand_content = [], cand_author = [], cand_published_date = None\<rparr>]"
    by code_simp
  show ?thesis using a b d by blast
qed

subsection \<open>The API collector\<close>

lemma item_get_first_present:
  "item_get (PDict d) keys dflt =
     Inr (case first_present d keys of Some v \<Rightarrow> v | None \<Rightarrow> dflt)"
  by (induction keys) (auto simp: item_get_def dict_get_def split: option.splits)

lemma parse_api_response_dict:
  "parse_api_response env source (PDict d) =
     Inr (case first_present d [''articles'', ''items'', ''results'', ''data''] of
            Some (PList xs) \<Rightarrow>
              List.map_filter (parse_api_item env) (py_take (max_articles source) xs)
          | _ \<Rightarrow> [])"
proof -
  let ?first = "first_present d [''articles'', ''items'', ''results'', ''data'']"
  have r: "parse_api_response env source (PDict d) =
     (case (case ?first of Some v \<Rightarrow> v | None \<Rightarrow> PList []) of
        PList xs \<Rightarrow> Inr (List.map_filter (parse_api_item env) (py_take (max_articles source) xs))
      | _ \<Rightarrow> Inr [])"
    by (simp only: parse_api_response_def item_get_first_present try_bind_def sum.case)
  show ?thesis
  proof (cases ?first)
    case None
    with r show ?thesis by (simp add: List.map_filter_def py_take_def del: first_present.simps)
  next
    case (Some v)
    with r show ?thesis by (cases v) (simp_all del: first_present.simps)
  qed
qed

lemma api_collect_fetched:
  assumes "api_endpoint c \<noteq> []" "request_headers c = Inr headers"
    and "session_get env (api_endpoint c) headers = Inr response"
    and "status response = 200" "resp_json response = Inr data"
    and "parse_api_response env source data = Inr articles"
  shows "api_collect env source (Some c) db = finish_run env articles db"
  using assms by (simp add: api_collect_def try_bind_def)

lemma clean_text_empty: "clean_text env (PStr []) = Inr []"
  by (simp add: clean_text_def)

lemma clean_text_T: "soup_text env (PStr ''T'') = Inr ''T'' \<Longrightarrow> clean_text env (PStr ''T'') = Inr ''T''"
  by (simp add: clean_text_def try_bind_def strip_def collapse_ws_def isspace_def)

lemma parse_api_item_T:
  assumes "soup_text env (PStr ''T'') = Inr ''T''"
  shows "parse_api_item env (PDict [(''title'', PStr ''T''), (''url'', PStr ''http://x/1'')])
         = Some \<lparr>cand_title = ''T'', cand_url = PStr ''http://x/1'', cand_content = [],
                  cand_author = [], cand_published_date = None\<rparr>"
  by (simp add: parse_api_item_def parse_api_item_body_def item_get_def dict_get_def try_bind_def
      clean_text_empty clean_text_T [OF assms])

lemma scenario_results:
  assumes "soup_text env (PStr ''T'') = Inr ''T''" "1 \<le> max_articles source"
  shows "parse_api_response env source results_response
         = Inr [\<lparr>cand_title = ''T'', cand_url = PStr ''http://x/1'', cand_content = [],
                  cand_author = [], cand_published_date = None\<rparr>]"
proof -
  have t: "py_take (max_articles source) [x] = [x]" for x :: pyval
    using assms(2) by (cases "nat (max_articles source)") (auto simp: py_take_def)
  show ?thesis
    unfolding results_response_def parse_api_response_dict
    by (simp add: t List.map_filter_def parse_api_item_T [OF assms(1)])
qed

lemma finish_run_logs:
  "logs (snd (finish_run env articles db))
     = logs (snd (self_save_articles env articles db))
       @ (case fst (self_save_articles env articles db) of
            Inl e \<Rightarrow> []
          | Inr n \<Rightarrow> [\<lparr>log_status = ''success'', articles_collected = n, log_errors = []\<rparr>])"
  by (cases "self_save_articles env articles db")
     (auto simp: finish_run_def log_collection_def split: sum.splits)

lemma finish_run_missing:
  "self_save_articles env = missing_method \<Longrightarrow>
     finish_run env articles db
       = (Inl (Exn AttributeError ''object has no attribute save_articles''), db)"
  by (simp add: finish_run_def missing_method_def)

text \<open>
  Claim C3, what the code does. For every API response object the candidate list is taken
  from the value of the first present key among \<open>articles\<close>, \<open>items\<close>, \<open>results\<close>,
  \<open>data\<close>, cut to \<open>max_articles\<close>, and the response
  \<open>{"results": [{"title": "T", "url": "http://x/1"}]}\<close> yields exactly one candidate,
  with title \<open>T\<close>, that URL, empty content and empty author, when \<open>max_articles\<close> is
  at least 1 (the text \<open>T\<close> has no markup). When none of the keys is present, or the
  first present key holds no list, the parser returns no candidate and raises nothing, and
  the run goes on as for an empty list: it calls \<^verbatim>\<open>self.save_articles\<close> and logs no record
  of its own other than one with status \<open>success\<close> and no error, after the save has
  returned. With the collector classes as they stand the call raises and no record is
  written, whether the response held a list or not.
\<close>

theorem api_first_present_key_wins:
  "parse_api_response env source (PDict d) =
     Inr (case first_present d [''articles'', ''items'', ''results'', ''data''] of
            Some (PList xs) \<Rightarrow>
              List.map_filter (parse_api_item env) (py_take (max_articles source) xs)
          | _ \<Rightarrow> [])
   \<and> (api_endpoint c \<noteq> [] \<and> request_headers c = Inr headers
        \<and> session_get env (api_endpoint c) headers = Inr response
        \<and> status response = 200 \<and> resp_json response = Inr (PDict d)
        \<and> (\<forall>xs. first_present d [''articles'', ''items'', ''results'', ''data''] \<noteq> Some (PList xs))
        \<longrightarrow> parse_api_response env source (PDict d) = Inr []
            \<and> api_collect env source (Some c) db = finish_run env [] db)
   \<and> logs (snd (finish_run env articles db))
       = logs (snd (self_save_articles env articles db))
         @ (case fst (self_save_articles env articles db) of
              Inl e \<Rightarrow> []
            | Inr n \<Rightarrow> [\<lparr>log_status = ''success'', articles_collected = n, log_errors = []\<rparr>])
   \<and> (self_save_articles env = missing_method \<longrightarrow>
        finish_run env articles db
          = (Inl (Exn AttributeError ''object has no attribute save_articles''), db))
   \<and> (soup_text env (PStr ''T'') = Inr ''T'' \<and> 1 \<le> max_articles source \<longrightarrow>
        parse_api_response env source results_response
          = Inr [\<lparr>cand_title = ''T'', cand_url = PStr ''http://x/1'', cand_content = [],
                   cand_author = [], cand_published_date = None\<rparr>])"
proof (intro conjI impI)
  show "parse_api_response env source (PDict d) =
     Inr (case first_present d [''articles'', ''items'', ''results'', ''data''] of
            Some (PList xs) \<Rightarrow>
              List.map_filter (parse_api_item env) (py_take (max_articles source) xs)
          | _ \<Rightarrow> [])"
    by (rule parse_api_response_dict)
next
  assume a: "api_endpoint c \<noteq> [] \<and> request_headers c = Inr headers
        \<and> session_get env (api_endpoint c) headers = Inr response
        \<and> status response = 200 \<and> resp_json response = Inr (PDict d)
        \<and> (\<forall>xs. first_present d [''articles'', ''items'', ''results'', ''data''] \<noteq> Some (PList xs))"
  then have n: "\<forall>xs. first_present d [''articles'', ''items'', ''results'', ''data''] \<noteq> Some (PList xs)"
    by blast
  have e: "parse_api_response env source (PDict d) = Inr []"
  proof (cases "first_present d [''articles'', ''items'', ''results'', ''data'']")
    case None
    then show ?thesis unfolding parse_api_response_dict by (simp del: first_present.simps)
  next
    case (Some v)
    with n show ?thesis unfolding parse_api_response_dict
      by (cases v) (simp_all del: first_present.simps)
  qed
  then show "parse_api_response env source (PDict d) = Inr []" .
  from a e show "api_collect env source (Some c) db = finish_run env [] db"
    using api_collect_fetched [of c headers env response "PDict d" source "[]" db] by blast
next
  show "logs (snd (finish_run env articles db))
       = logs (snd (self_save_articles env articles db))
         @ (case fst (self_save_articles env articles db) of
              Inl e \<Rightarrow> []
            | Inr n \<Rightarrow> [\<lparr>log_status = ''success'', articles_collected = n, log_errors = []\<rparr>])"
    by (rule finish_run_logs)
next
  assume "self_save_articles env = missing_method"
  then show "finish_run env articles db
          = (Inl (Exn AttributeError ''object has no attribute save_articles''), db)"
    by (rule finish_run_missing)
next
  assume "soup_text env (PStr ''T'') = Inr ''T'' \<and> 1 \<le> max_articles source"
  then show "parse_api_response env source results_response
          = Inr [\<lparr>cand_title = ''T'', cand_url = PStr ''http://x/1'', cand_content = [],
                   cand_author = [], cand_published_date = None\<rparr>]"
    using scenario_results by blast
qed

theorem api_first_present_key_wins_witness:
  "parse_api_response (example_env two_links (json_session (PDict [(''data'', PStr ''none'')]))
                         no_feeds missing_method) api_source (PDict [(''data'', PStr ''none'')])
     = Inr []
   \<and> api_collect (example_env two_links (json_session (PDict [(''data'', PStr ''none'')]))
                    no_feeds missing_method) api_source (Some api_config) empty_store
     = (Inl (Exn AttributeError ''object has no attribute save_articles''), empty_store)
   \<and> parse_api_response (example_env two_links (json_session results_response) no_feeds
                          missing_method) api_source results_response
     = Inr [\<lparr>cand_title = ''T'', cand_url = PStr ''http://x/1'', cand_content = [],
              cand_author = [], cand_published_date = None\<rparr>]
   \<and> api_collect (example_env two_links (json_session results_response) no_feeds missing_method)
        api_source (Some api_config) empty_store
     = (Inl (Exn AttributeError ''object has no attribute save_articles''), empty_store)"
proof -
  let ?env = "example_env two_links (json_session (PDict [(''data'', PStr ''none'')])) no_feeds
                  missing_method"
  let ?env2 = "example_env two_links (json_session results_response) no_feeds missing_method"
  let ?r = "\<lparr>status = 200, resp_text = Inl (Exn OtherError ''not read''),
             resp_json = Inr (PDict [(''data'', PStr ''none'')])\<rparr>"
  have h1: "api_endpoint api_config \<noteq> []" by (simp add: api_config_def)
  have h2: "request_headers api_config = Inr (PDict [])"
    by (simp add: request_headers_def api_config_def)
  have h3: "session_get ?env (api_endpoint api_config) (PDict []) = Inr ?r"
    by (simp add: example_env_def json_session_def)
  have h4: "\<forall>xs. first_present [(''data'', PStr ''none'')] [''articles'', ''items'', ''results'', ''data'']
              \<noteq> Some (PList xs)"
    by simp
  have h5: "self_save_articles ?env = missing_method" by (simp add: example_env_def)
  have s1: "soup_text ?env2 (PStr ''T'') = Inr ''T''" by (simp add: example_env_def)
  have s2: "1 \<le> max_articles api_source" by (simp add: api_source_def)
  have a: "parse_api_response ?env api_source (PDict [(''data'', PStr ''none'')]) = Inr []
           \<and> api_collect ?env api_source (Some api_config) empty_store = finish_run ?env [] empty_store"
    using api_first_present_key_wins
      [of ?env api_source "[(''data'', PStr ''none'')]" api_config "PDict []" ?r empty_store]
      h1 h2 h3 h4
    by simp
  have f: "finish_run ?env [] empty_store
           = (Inl (Exn AttributeError ''object has no attribute save_articles''), empty_store)"
    using api_first_present_key_wins [of ?env api_source _ _ _ _ empty_store "[]"] h5 by blast
  have b: "parse_api_response ?env2 api_source results_response
     = Inr [\<lparr>cand_title = ''T'', cand_url = PStr ''http://x/1'', cand_content = [],
              cand_author = [], cand_published_date = None\<rparr>]"
    using api_first_present_key_wins [of ?env2 api_source] s1 s2 by blast
  have g: "api_collect ?env2 api_source (Some api_config) empty_store
     = (Inl (Exn AttributeError ''object has no attribute save_articles''), empty_store)"
    by code_simp
  show ?thesis using a f b g by simp
qed

subsection \<open>Collection runs and their records\<close>

lemma finish_run_saved:
  "self_save_articles env articles db = (Inr n, db') \<Longrightarrow>
     finish_run env articles db = (Inr articles, log_collection ''success'' n [] db')"
  by (simp add: finish_run_def)

lemma finish_run_raised:
  "self_save_articles env articles db = (Inl e, db') \<Longrightarrow>
     finish_run env articles db = (Inl e, db')"
  by (simp add: finish_run_def)

lemma website_fetch_raised:
  "session_get env (src_url source) PNone = Inl e \<Longrightarrow>
     website_collect env source config db = (Inr [], log_collection ''error'' 0 [msg e] db)"
  by (simp add: website_collect_def try_bind_def)

lemma website_bad_status:
  "session_get env (src_url source) PNone = Inr response \<Longrightarrow> status response \<noteq> 200 \<Longrightarrow>
     website_collect env source config db = finish_run env [] db"
  by (simp add: website_collect_def try_bind_def)

lemma api_unconfigured:
  "api_collect env source None db = (Inr [], db)"
  "api_endpoint c = [] \<Longrightarrow> api_collect env source (Some c) db = (Inr [], db)"
  by (simp_all add: api_collect_def)

lemma api_fetch_raised:
  "api_endpoint c \<noteq> [] \<Longrightarrow> request_headers c = Inr headers \<Longrightarrow>
   session_get env (api_endpoint c) headers = Inl e \<Longrightarrow>
     api_collect env source (Some c) db = (Inr [], log_collection ''error'' 0 [msg e] db)"
  by (simp add: api_collect_def try_bind_def)

lemma api_bad_status:
  "api_endpoint c \<noteq> [] \<Longrightarrow> request_headers c = Inr headers \<Longrightarrow>
   session_get env (api_endpoint c) headers = Inr response \<Longrightarrow> status response \<noteq> 200 \<Longrightarrow>
     api_collect env source (Some c) db = finish_run env [] db"
  by (simp add: api_collect_def try_bind_def)

text \<open>
  Claim C1, what the code does when the primary fetch fails. When the request raises, a
  Website or API run returns no candidate and logs exactly one record with status
  \<open>error\<close>, zero collected articles and the exception's text as its one error. When
  the response has a status other than 200 the run goes on with no article: it calls
  \<^verbatim>\<open>save_articles\<close> and logs status \<open>success\<close> with an empty error list (or raises what
  the save raises, logging nothing). An API run without configuration or without an
  endpoint returns at once and logs no record.
\<close>

theorem failed_fetch_run_records:
  "(session_get env (src_url source) PNone = Inl e \<longrightarrow>
      website_collect env source config db = (Inr [], log_collection ''error'' 0 [msg e] db))
   \<and> (api_endpoint c \<noteq> [] \<and> request_headers c = Inr headers
        \<and> session_get env (api_endpoint c) headers = Inl e \<longrightarrow>
      api_collect env source (Some c) db = (Inr [], log_collection ''error'' 0 [msg e] db))
   \<and> logs (log_collection ''error'' 0 [msg e] db)
       = logs db @ [\<lparr>log_status = ''error'', articles_collected = 0, log_errors = [msg e]\<rparr>]
   \<and> (session_get env (src_url source) PNone = Inr response \<and> status response \<noteq> 200 \<longrightarrow>
        website_collect env source config db = finish_run env [] db)
   \<and> (api_endpoint c \<noteq> [] \<and> request_headers c = Inr headers
        \<and> session_get env (api_endpoint c) headers = Inr response \<and> status response \<noteq> 200 \<longrightarrow>
        api_collect env source (Some c) db = finish_run env [] db)
   \<and> (self_save_articles env [] db = (Inr n, db') \<longrightarrow>
        finish_run env [] db = (Inr [], log_collection ''success'' n [] db'))
   \<and> (self_save_articles env [] db = (Inl e', db') \<longrightarrow> finish_run env [] db = (Inl e', db'))
   \<and> api_collect env source None db = (Inr [], db)
   \<and> (api_endpoint c = [] \<longrightarrow> api_collect env source (Some c) db = (Inr [], db))"
  using website_fetch_raised [of env source e config db]
    api_fetch_raised [of c headers env e source db]
    website_bad_status [of env source response config db]
    api_bad_status [of c headers env response source db]
    finish_run_saved [of env "[]" db n db'] finish_run_raised [of env "[]" db e' db']
    api_unconfigured(1) [of env source db] api_unconfigured(2) [of c env source db]
  by (simp add: log_collection_def)

theorem failed_fetch_run_records_witness:
  "website_collect (example_env two_links timed_out no_feeds missing_method) site None empty_store
     = (Inr [], \<lparr>logs = [\<lparr>log_status = ''error'', articles_collected = 0,
                            log_errors = [''timeout'']\<rparr>], stored_urls = []\<rparr>)
   \<and> website_collect (example_env two_links not_found no_feeds missing_method) site None empty_store
     = (Inl (Exn AttributeError ''object has no attribute save_articles''), empty_store)
   \<and> api_collect (example_env two_links not_found no_feeds missing_method) api_source None
        empty_store = (Inr [], empty_store)
   \<and> api_collect (example_env two_links not_found no_feeds missing_method) api_source
        (Some (api_config\<lparr>api_endpoint := []\<rparr>)) empty_store = (Inr [], empty_store)
   \<and> api_collect (example_env two_links not_found no_feeds missing_method) api_source
        (Some api_config) empty_store
     = (Inl (Exn AttributeError ''object has no attribute save_articles''), empty_store)"
proof -
  let ?env = "example_env two_links not_found no_feeds missing_method"
  let ?tenv = "example_env two_links timed_out no_feeds missing_method"
  let ?r = "\<lparr>status = 404, resp_text = Inr ''Not Found'',
             resp_json = Inl (Exn ValueError ''not JSON'')\<rparr>"
  let ?e = "Exn AttributeError ''object has no attribute save_articles''"
  have g: "session_get ?env (src_url site) PNone = Inr ?r"
      "session_get ?env (api_endpoint api_config) (PDict []) = Inr ?r"
    by (simp_all add: example_env_def not_found_def)
  have g0: "session_get ?tenv (src_url site) PNone = Inl (Exn OtherError ''timeout'')"
    by (simp add: example_env_def timed_out_def)
  have s: "status ?r \<noteq> 200" by simp
  have h: "api_endpoint api_config \<noteq> []" "request_headers api_config = Inr (PDict [])"
    by (simp_all add: api_config_def request_headers_def)
  have sv: "self_save_articles ?env [] empty_store = (Inl ?e, empty_store)"
    by (simp add: example_env_def missing_method_def)
  have l: "log_collection ''error'' 0 [''timeout''] empty_store
           = \<lparr>logs = [\<lparr>log_status = ''error'', articles_collected = 0,
                        log_errors = [''timeout'']\<rparr>], stored_urls = []\<rparr>"
    by (simp add: log_collection_def empty_store_def)
  have w0: "website_collect ?tenv site None empty_store
            = (Inr [], log_collection ''error'' 0 [''timeout''] empty_store)"
    using failed_fetch_run_records [of ?tenv site "Exn OtherError ''timeout''" None empty_store] g0
    by simp
  have w2: "website_collect ?env site None empty_store = (Inl ?e, empty_store)"
    using failed_fetch_run_records [of ?env site _ None empty_store _ _ ?r _ empty_store ?e] g(1) s sv
    by simp
  have a1: "api_collect ?env api_source None empty_store = (Inr [], empty_store)"
    using failed_fetch_run_records [of ?env api_source _ _ empty_store] by blast
  have a2: "api_collect ?env api_source (Some (api_config\<lparr>api_endpoint := []\<rparr>)) empty_store
            = (Inr [], empty_store)"
    using failed_fetch_run_records [of ?env api_source _ _ empty_store "api_config\<lparr>api_endpoint := []\<rparr>"]
    by simp
  have a3: "api_collect ?env api_source (Some api_config) empty_store = (Inl ?e, empty_store)"
    using failed_fetch_run_records
      [of ?env api_source _ _ empty_store api_config "PDict []" ?r _ empty_store ?e] g(2) s h sv
    by simp
  show ?thesis using w0 w2 a1 a2 a3 l by simp
qed

lemma rss_loop_concat:
  "rss_loop env source rss_feeds = concat (map (collect_from_feed env source) rss_feeds)"
  by (induction rss_feeds) (auto simp: Let_def split: sum.splits)

lemma collect_from_feed_failed:
  "isl (feedparser_parse env rss_feed) \<Longrightarrow> collect_from_feed env source rss_feed = []"
  by (auto simp: collect_from_feed_def isl_def)

lemma collect_from_feed_entries:
  "feedparser_parse env rss_feed = Inr entries \<Longrightarrow>
     collect_from_feed env source rss_feed
       = List.map_filter (parse_rss_entry env) (py_take (max_articles source) entries)"
  by (simp add: collect_from_feed_def)

lemma py_take_all: "int (length xs) \<le> n \<Longrightarrow> py_take n xs = xs"
  by (simp add: py_take_def)

lemma three_of_four:
  assumes "feedparser_parse env rss_feed = Inr [e1, bad, e2, e3]" "4 \<le> max_articles source"
    and "parse_rss_entry env e1 = Some c1" "parse_rss_entry env bad = None"
    and "parse_rss_entry env e2 = Some c2" "parse_rss_entry env e3 = Some c3"
  shows "collect_from_feed env source rss_feed = [c1, c2, c3]"
proof -
  have "py_take (max_articles source) [e1, bad, e2, e3] = [e1, bad, e2, e3]"
    using assms(2) by (intro py_take_all) simp
  with assms show ?thesis
    by (simp add: collect_from_feed_entries List.map_filter_def)
qed

text \<open>
  Claim C2, what the code does. An RSS run visits every feed: its candidates are those of
  each feed, one after the other; a feed whose parsing raises gives none and a malformed
  entry is skipped, neither stops the feeds and entries after it. A feed of three valid
  entries and one malformed entry yields exactly the three candidates. No failure reaches
  the run record: the only record the run can log has status \<open>success\<close> and an empty
  error list, after \<^verbatim>\<open>self.save_articles\<close> has returned. With the collector classes as
  they stand that call raises: the run ends with an \<^verbatim>\<open>AttributeError\<close>, returns no
  candidate and logs no record.
\<close>

theorem rss_failures_are_isolated:
  "rss_loop env source rss_feeds = concat (map (collect_from_feed env source) rss_feeds)
   \<and> (isl (feedparser_parse env rss_feed) \<longrightarrow> collect_from_feed env source rss_feed = [])
   \<and> (feedparser_parse env rss_feed = Inr entries \<longrightarrow>
        collect_from_feed env source rss_feed
          = List.map_filter (parse_rss_entry env) (py_take (max_articles source) entries))
   \<and> (feedparser_parse env rss_feed = Inr [e1, bad, e2, e3] \<and> 4 \<le> max_articles source
        \<and> parse_rss_entry env e1 = Some c1 \<and> parse_rss_entry env bad = None
        \<and> parse_rss_entry env e2 = Some c2 \<and> parse_rss_entry env e3 = Some c3 \<longrightarrow>
        collect_from_feed env source rss_feed = [c1, c2, c3])
   \<and> rss_collect env source rss_feeds db = finish_run env (rss_loop env source rss_feeds) db
   \<and> logs (snd (rss_collect env source rss_feeds db))
       = logs (snd (self_save_articles env (rss_loop env source rss_feeds) db))
         @ (case fst (self_save_articles env (rss_loop env source rss_feeds) db) of
              Inl e \<Rightarrow> []
            | Inr n \<Rightarrow> [\<lparr>log_status = ''success'', articles_collected = n, log_errors = []\<rparr>])
   \<and> (self_save_articles env = missing_method \<longrightarrow>
        rss_collect env source rss_feeds db
          = (Inl (Exn AttributeError ''object has no attribute save_articles''), db))"
  using rss_loop_concat [of env source rss_feeds]
    collect_from_feed_failed [of env rss_feed source]
    collect_from_feed_entries [of env rss_feed entries source]
    three_of_four [of env rss_feed e1 bad e2 e3 source c1 c2 c3]
    finish_run_logs [of env "rss_loop env source rss_feeds" db]
    finish_run_missing [of env "rss_loop env source rss_feeds" db]
  by (simp add: rss_collect_def)

theorem rss_failures_are_isolated_witness:
  "collect_from_feed (example_env two_links not_found one_feed missing_method) rss_source
     ''http://x/bad'' = []
   \<and> collect_from_feed (example_env two_links not_found one_feed missing_method) rss_source
       ''http://x/feed''
       = [\<lparr>cand_title = ''Um'', cand_url = PStr ''http://x/1'', cand_content = [],
            cand_author = [], cand_published_date = None\<rparr>,
          \<lparr>cand_title = ''Dois'', cand_url = PStr ''http://x/2'', cand_content = [],
            cand_author = [], cand_published_date = None\<rparr>,
          \<lparr>cand_title = ''Tres'', cand_url = PStr ''http://x/3'', cand_content = [],
            cand_author = [], cand_published_date = None\<rparr>]
   \<and> rss_collect (example_env two_links not_found one_feed missing_method) rss_source
       [''http://x/feed''] empty_store
       = (Inl (Exn AttributeError ''object has no attribute save_articles''), empty_store)
   \<and> logs (snd (rss_collect (example_env two_links not_found one_feed missing_method) rss_source
                   [''http://x/feed''] empty_store)) = []"
proof -
  let ?env = "example_env two_links not_found one_feed missing_method"
  let ?c1 = "\<lparr>cand_title = ''Um'', cand_url = PStr ''http://x/1'', cand_content = [],
            cand_author = [], cand_published_date = None\<rparr>"
  let ?c2 = "\<lparr>cand_title = ''Dois'', cand_url = PStr ''http://x/2'', cand_content = [],
            cand_author = [], cand_published_date = None\<rparr>"
  let ?c3 = "\<lparr>cand_title = ''Tres'', cand_url = PStr ''http://x/3'', cand_content = [],
            cand_author = [], cand_published_date = None\<rparr>"
  have f0: "isl (feedparser_parse ?env ''http://x/bad'')"
    by (simp add: example_env_def one_feed_def)
  have f1: "feedparser_parse ?env ''http://x/feed''
            = Inr [feed_entry ''Um'' ''http://x/1'', malformed_entry,
                   feed_entry ''Dois'' ''http://x/2'', feed_entry ''Tres'' ''http://x/3'']"
    by (simp add: example_env_def one_feed_def)
  have m: "4 \<le> max_articles rss_source" by (simp add: rss_source_def)
  have sm: "self_save_articles ?env = missing_method" by (simp add: example_env_def)
  have p1: "parse_rss_entry ?env (feed_entry ''Um'' ''http://x/1'') = Some ?c1" by code_simp
  have p2: "parse_rss_entry ?env (feed_entry ''Dois'' ''http://x/2'') = Some ?c2" by code_simp
  have p3: "parse_rss_entry ?env (feed_entry ''Tres'' ''http://x/3'') = Some ?c3" by code_simp
  have pb: "parse_rss_entry ?env malformed_entry = None" by code_simp
  have a: "collect_from_feed ?env rss_source ''http://x/bad'' = []"
    using rss_failures_are_isolated [of ?env rss_source _ "''http://x/bad''"] f0 by blast
  have b: "collect_from_feed ?env rss_source ''http://x/feed'' = [?c1, ?c2, ?c3]"
    using rss_failures_are_isolated
      [of ?env rss_source _ "''http://x/feed''" _ "feed_entry ''Um'' ''http://x/1''"
          malformed_entry "feed_entry ''Dois'' ''http://x/2''" "feed_entry ''Tres'' ''http://x/3''"
          ?c1 ?c2 ?c3] f1 m p1 p2 p3 pb
    by blast
  have c: "rss_collect ?env rss_source [''http://x/feed''] empty_store
           = (Inl (Exn AttributeError ''object has no attribute save_articles''), empty_store)"
    using rss_failures_are_isolated [of ?env rss_source "[''http://x/feed'']" _ _ _ _ _ _ _ _ _ empty_store]
      sm by blast
  have d: "logs (snd (rss_collect ?env rss_source [''http://x/feed''] empty_store)) = []"
    using c by (simp add: empty_store_def)
  show ?thesis using a b c d by blast
qed

end
